theory Spec2Isabelle
  imports Main
begin

section \<open>Data model\<close>

text \<open>
  Go strings are byte sequences, modelled as \<open>string\<close>.  A nilable pointer or map is an
  \<open>option\<close> (\<open>None\<close> is Go's nil), a point in time is an \<open>int\<close>.  A profile
  (\<open>map[string]any\<close>) is an association list from keys to the JSON text of the values.
\<close>

type_synonym Profile = "(string \<times> string) list option"

text \<open>
  \<open>domain.Account\<close>: the type declaration is not among the sources; its fields are
  the ones that \<open>toAccount\<close> and \<open>AccountToUser\<close> read and write.
\<close>

record Account =
  accUsername :: string
  accEmail :: string
  accPassword :: string
  accFirstName :: string
  accLastName :: string
  accActive :: bool
  accSuperuser :: bool
  accCreated :: "int option"
  accConfirmed :: "int option"
  accLastLogin :: "int option"
  accProfile :: Profile

text \<open>\<open>domain.User\<close>, the resolved identity.\<close>

record User =
  Username :: string
  Email :: string
  FirstName :: string
  LastName :: string
  IsSuperuser :: bool
  IsAuthenticated :: bool
  IsGuest :: bool
  Profile :: Profile

text \<open>\<open>postgres.User\<close>, a row of the table \<open>users\<close>.\<close>

record DbUser =
  dbUsername :: string
  dbEmail :: string
  dbPassword :: string
  dbFirstName :: string
  dbLastName :: string
  dbIsSuperuser :: bool
  dbIsActive :: bool
  dbCreated :: "int option"
  dbConfirmed :: "int option"
  dbLastLogin :: "int option"
  dbProfile :: Profile

text \<open>
  Errors are values.  The first three are the sentinels of package \<open>auth\<close>;
  \<open>ErrAccountNotFound\<close> is the sentinel of package \<open>domain\<close>, a different value;
  \<open>ErrNoCookie\<close> and \<open>ErrNoRows\<close> are the library sentinels of \<open>net/http\<close> and
  \<open>database/sql\<close>; \<open>ErrNotExist\<close> is the one of \<open>os\<close>;
  \<open>ValidationErrors fs\<close> is the validator's error for the fields \<open>fs\<close>.
  \<open>Errorf m\<close> is an error made from a message alone (\<open>errors.New\<close>, \<open>fmt.Errorf\<close>
  without an argument), \<open>Errorv m e\<close> is \<open>fmt.Errorf\<close> printing \<open>e\<close> with \<open>%v\<close> (the
  text of \<open>e\<close> is kept, its identity is not), and \<open>Wrapf m e\<close> is \<open>fmt.Errorf\<close> with
  \<open>%w\<close>, which keeps \<open>e\<close> reachable for \<open>errors.Is\<close>.
\<close>

datatype error =
    ErrUserNotFound
  | ErrInvalidPassword
  | ErrInvalidSession
  | ErrAccountNotFound
  | ErrNoCookie
  | ErrNoRows
  | ErrNotExist
  | ValidationErrors "string list"
  | Errorf string
  | Errorv string error
  | Wrapf string error

fun errors_Is :: "error \<Rightarrow> error \<Rightarrow> bool" where
  "errors_Is (Wrapf m e) target = (Wrapf m e = target \<or> errors_Is e target)"
| "errors_Is e target = (e = target)"

subsection \<open>Projection of an account\<close>

definition AccountToUser :: "Account \<Rightarrow> User" where
  "AccountToUser account =
     \<lparr> Username = accUsername account,
       Email = accEmail account,
       FirstName = accFirstName account,
       LastName = accLastName account,
       IsSuperuser = accSuperuser account,
       IsAuthenticated = True,
       IsGuest = False,
       Profile = accProfile account \<rparr>"

text \<open>\<open>AnonymousUser = domain.User{IsGuest: true}\<close>: every other field has its zero value.\<close>

definition zeroUser :: User where
  "zeroUser =
     \<lparr> Username = [], Email = [], FirstName = [], LastName = [],
       IsSuperuser = False, IsAuthenticated = False, IsGuest = False, Profile = None \<rparr>"

definition AnonymousUser :: User where
  "AnonymousUser = zeroUser \<lparr> IsGuest := True \<rparr>"

section \<open>Collaborators\<close>

text \<open>
  The service is written against two interfaces, \<open>SessionStore\<close> and
  \<open>domain.AccountsRepository\<close>.  An implementation acts on a backing state \<open>'w\<close> (the
  Redis server, the database); each method takes that state and returns its result with
  the state after the call.  Of the repository only the methods the service calls appear.
\<close>

record 'w SessionStore =
  store_Set :: "string \<Rightarrow> string \<Rightarrow> int \<Rightarrow> 'w \<Rightarrow> error option \<times> 'w"
  store_Get :: "string \<Rightarrow> 'w \<Rightarrow> (error + string) \<times> 'w"
  store_Del :: "string \<Rightarrow> 'w \<Rightarrow> error option \<times> 'w"

record 'w AccountsRepository =
  GetByUsername :: "string \<Rightarrow> 'w \<Rightarrow> (error + Account) \<times> 'w"
  GetByEmail :: "string \<Rightarrow> 'w \<Rightarrow> (error + Account) \<times> 'w"
  Update :: "Account \<Rightarrow> 'w \<Rightarrow> error option \<times> 'w"

text \<open>
  \<open>AuthService\<close> holds the session expiration, the repository and the store.  The two
  caches are mutable and live in the state below; the logger has no effect on any result
  and is left out.  The remaining fields are the functions the service calls whose code is
  not among the sources: the method \<open>CheckPassword\<close> of \<open>domain.Account\<close>,
  \<open>base64.StdEncoding.DecodeString\<close>, \<open>uuid.NewV4\<close> (rendered as a string) and
  \<open>time.Now\<close>.  They are parameters: every theorem holds for each of their behaviours.
\<close>

record 'w AuthService =
  expiration :: int
  accounts :: "'w AccountsRepository"
  store :: "'w SessionStore"
  CheckPassword :: "Account \<Rightarrow> string \<Rightarrow> bool"
  DecodeString :: "string \<Rightarrow> error + string"
  NewV4 :: "'w \<Rightarrow> (error + string) \<times> 'w"
  Now :: "'w \<Rightarrow> int \<times> 'w"

text \<open>
  Every call that leaves the service is recorded, in order, so that a statement such as
  ``the store is not queried'' is a statement about this list.
\<close>

datatype Call =
    StoreSet string string int
  | StoreGet string
  | StoreDel string
  | AccountsGetByUsername string
  | AccountsGetByEmail string
  | AccountsUpdate Account
  | CacheGet string
  | CacheSet string
  | BasicAuthCacheGet string
  | BasicAuthCacheSet string
  | RequestCookie string

text \<open>
  The state that a call of the service reads and changes: the backing state of the
  collaborators, the two caches of the service and the record of calls.

  Modelled from the spec: the two \<open>ttlcache\<close> instances (the library is not among the
  sources).  A cache is the map of its entries that have not expired; both are created
  with touch-on-hit disabled, so a lookup does not change an entry.
\<close>

record 'w State =
  world :: 'w
  cache :: "string \<rightharpoonup> User"
  basicAuthCache :: "string \<rightharpoonup> User"
  calls :: "Call list"

definition accounts_GetByUsername ::
  "'w AuthService \<Rightarrow> string \<Rightarrow> 'w State \<Rightarrow> (error + Account) \<times> 'w State" where
  "accounts_GetByUsername svc username s =
     (let (r, w) = GetByUsername (accounts svc) username (world s)
      in (r, s \<lparr> world := w, calls := calls s @ [AccountsGetByUsername username] \<rparr>))"

definition accounts_GetByEmail ::
  "'w AuthService \<Rightarrow> string \<Rightarrow> 'w State \<Rightarrow> (error + Account) \<times> 'w State" where
  "accounts_GetByEmail svc email s =
     (let (r, w) = GetByEmail (accounts svc) email (world s)
      in (r, s \<lparr> world := w, calls := calls s @ [AccountsGetByEmail email] \<rparr>))"

definition accounts_Update ::
  "'w AuthService \<Rightarrow> Account \<Rightarrow> 'w State \<Rightarrow> error option \<times> 'w State" where
  "accounts_Update svc account s =
     (let (r, w) = Update (accounts svc) account (world s)
      in (r, s \<lparr> world := w, calls := calls s @ [AccountsUpdate account] \<rparr>))"

section \<open>The PostgreSQL repository\<close>

text \<open>
  The database is the list of rows of table \<open>users\<close>.  A query fails when the
  database is unavailable (\<open>failure\<close>).  \<open>sql_LIKE db text pattern\<close> is the
  database's \<open>LIKE\<close> operator, a parameter.  \<open>db_Select\<close> is \<open>sqlx\<close>'s \<open>Select\<close> with
  the \<open>WHERE\<close> clause as a predicate; \<open>db_Get\<close> is \<open>sqlx\<close>'s \<open>Get\<close>, which scans the
  first row and reports \<open>sql.ErrNoRows\<close> when there is none.
\<close>

record Db =
  users :: "DbUser list"
  failure :: "error option"
  sql_LIKE :: "string \<Rightarrow> string \<Rightarrow> bool"

definition db_Select :: "Db \<Rightarrow> (DbUser \<Rightarrow> bool) \<Rightarrow> error + DbUser list" where
  "db_Select db wh = (case failure db of Some err \<Rightarrow> Inl err | None \<Rightarrow> Inr (filter wh (users db)))"

definition db_Get :: "Db \<Rightarrow> (DbUser \<Rightarrow> bool) \<Rightarrow> error + DbUser" where
  "db_Get db wh =
     (case db_Select db wh of
        Inl err \<Rightarrow> Inl err
      | Inr [] \<Rightarrow> Inl ErrNoRows
      | Inr (user # _) \<Rightarrow> Inr user)"

definition toAccount :: "DbUser \<Rightarrow> Account" where
  "toAccount user =
     \<lparr> accUsername = dbUsername user,
       accEmail = dbEmail user,
       accPassword = dbPassword user,
       accFirstName = dbFirstName user,
       accLastName = dbLastName user,
       accActive = dbIsActive user,
       accSuperuser = dbIsSuperuser user,
       accCreated = dbCreated user,
       accConfirmed = dbConfirmed user,
       accLastLogin = dbLastLogin user,
       accProfile = dbProfile user \<rparr>"

definition toUser :: "Account \<Rightarrow> DbUser" where
  "toUser a =
     \<lparr> dbUsername = accUsername a,
       dbEmail = accEmail a,
       dbPassword = accPassword a,
       dbFirstName = accFirstName a,
       dbLastName = accLastName a,
       dbIsSuperuser = accSuperuser a,
       dbIsActive = accActive a,
       dbCreated = accCreated a,
       dbConfirmed = accConfirmed a,
       dbLastLogin = accLastLogin a,
       dbProfile = accProfile a \<rparr>"

definition repo_find :: "Db \<Rightarrow> (DbUser \<Rightarrow> bool) \<Rightarrow> error + Account" where
  "repo_find db wh =
     (case db_Get db wh of
        Inl err \<Rightarrow> if err = ErrNoRows then Inl ErrAccountNotFound else Inl err
      | Inr user \<Rightarrow> Inr (toAccount user))"

definition repo_GetByUsername :: "Db \<Rightarrow> string \<Rightarrow> error + Account" where
  "repo_GetByUsername db username = repo_find db (\<lambda>u. dbUsername u = username)"

definition repo_GetByEmail :: "Db \<Rightarrow> string \<Rightarrow> error + Account" where
  "repo_GetByEmail db email =
     (case db_Select db (\<lambda>u. sql_LIKE db (dbEmail u) email) of
        Inl err \<Rightarrow> Inl err
      | Inr dbUsers \<Rightarrow>
          if length dbUsers = 0 then Inl ErrAccountNotFound
          else if length dbUsers > 1 then Inl (Errorf ''More than 1 accounts with email address'')
          else Inr (toAccount (dbUsers ! 0)))"

text \<open>
  \<open>Update\<close> rewrites every column but \<open>profile\<close> of the rows with the account's
  username.
\<close>

definition repo_Update :: "Db \<Rightarrow> Account \<Rightarrow> error option \<times> Db" where
  "repo_Update db account =
     (case failure db of
        Some err \<Rightarrow> (Some err, db)
      | None \<Rightarrow>
          (None, db \<lparr> users :=
             map (\<lambda>u. if dbUsername u = accUsername account
                      then (toUser account) \<lparr> dbProfile := dbProfile u \<rparr> else u) (users db) \<rparr>))"

section \<open>The Redis session store\<close>

text \<open>
  The Redis server is the map of its live keys, each with the expiration it was set with;
  \<open>rdb_failure\<close> is the error of an unreachable server.  A missing key is Redis's
  \<open>redis.Nil\<close>, which \<open>Get\<close> turns into \<open>ErrInvalidSession\<close>.
\<close>

record Redis =
  entries :: "string \<rightharpoonup> string \<times> int"
  rdb_failure :: "error option"

definition RedisSessionStore_Set :: "string \<Rightarrow> string \<Rightarrow> int \<Rightarrow> Redis \<Rightarrow> error option \<times> Redis" where
  "RedisSessionStore_Set sessionID val exp rdb =
     (case rdb_failure rdb of
        Some err \<Rightarrow> (Some (Errorv ''redis save session'' err), rdb)
      | None \<Rightarrow> (None, rdb \<lparr> entries := (entries rdb)(sessionID \<mapsto> (val, exp)) \<rparr>))"

definition RedisSessionStore_Get :: "string \<Rightarrow> Redis \<Rightarrow> (error + string) \<times> Redis" where
  "RedisSessionStore_Get sessionID rdb =
     (case rdb_failure rdb of
        Some err \<Rightarrow> (Inl (Errorv ''redis get session'' err), rdb)
      | None \<Rightarrow>
          (case entries rdb sessionID of
             None \<Rightarrow> (Inl ErrInvalidSession, rdb)
           | Some (v, _) \<Rightarrow> (Inr v, rdb)))"

definition RedisSessionStore_Del :: "string \<Rightarrow> Redis \<Rightarrow> error option \<times> Redis" where
  "RedisSessionStore_Del sessionID rdb =
     (case rdb_failure rdb of
        Some err \<Rightarrow> (Some (Errorv ''redis delete session'' err), rdb)
      | None \<Rightarrow> (None, rdb \<lparr> entries := (entries rdb)(sessionID := None) \<rparr>))"

section \<open>Direct credential verification\<close>

text \<open>
  \<open>strings.Contains(login, "@")\<close> is membership of the byte \<open>@\<close>.  Where the Go
  function returns \<open>domain.Account{}\<close> with an error, the model returns \<open>Inl\<close> of the
  error.
\<close>

definition Authenticate ::
  "'w AuthService \<Rightarrow> string \<Rightarrow> string \<Rightarrow> 'w State \<Rightarrow> (error + Account) \<times> 'w State" where
  "Authenticate svc login password s =
     (let (r, s1) = (if CHR ''@'' \<in> set login then accounts_GetByEmail svc login s
                     else accounts_GetByUsername svc login s)
      in case r of
           Inl err \<Rightarrow> (Inl err, s1)
         | Inr account \<Rightarrow>
             if \<not> accActive account then (Inl ErrUserNotFound, s1)
             else if \<not> CheckPassword svc account password then (Inl ErrInvalidPassword, s1)
             else (Inr account, s1))"

section \<open>The request context\<close>

text \<open>
  An \<open>http.Cookie\<close> with the fields the service sets (a zero \<open>Expires\<close> is \<open>None\<close>).
\<close>

datatype SameSite = SameSiteDefaultMode | SameSiteLaxMode | SameSiteStrictMode | SameSiteNoneMode

record Cookie =
  Name :: string
  Value :: string
  Path :: string
  SameSite :: SameSite
  HttpOnly :: bool
  MaxAge :: int
  Expires :: "int option"

record LoginForm =
  formUsername :: string
  formPassword :: string

text \<open>
  Of a request the model keeps the header map, the cookies the request carries (name and
  value, in order) and what \<open>c.Bind\<close> makes of its body for the login form.
\<close>

record Request =
  Header :: "string \<rightharpoonup> string list"
  Cookies :: "(string \<times> string) list"
  Bind :: "error + LoginForm"

definition Header_Get :: "Request \<Rightarrow> string \<Rightarrow> string" where
  "Header_Get r key = (case Header r key of Some (v # _) \<Rightarrow> v | _ \<Rightarrow> [])"

definition Request_Cookie :: "Request \<Rightarrow> string \<Rightarrow> error + string" where
  "Request_Cookie r name =
     (if name = [] then Inl ErrNoCookie
      else case filter (\<lambda>ck. fst ck = name) (Cookies r) of
             [] \<Rightarrow> Inl ErrNoCookie
           | ck # _ \<Rightarrow> Inr (snd ck))"

record SessionInfo =
  sessID :: string
  sessUsername :: string

text \<open>
  The values kept in an \<open>echo.Context\<close> by \<open>c.Set\<close> are of type \<open>any\<close>: nil, a
  \<open>SessionInfo\<close>, a \<open>domain.User\<close>, or something else.  \<open>c.Get\<close> of a key never set is nil.
  The context also collects the \<open>Set-Cookie\<close> headers written to the response.
\<close>

datatype CtxValue = VNil | VSessionInfo SessionInfo | VUser User | VOther string

record Context =
  request :: Request
  ctxStore :: "string \<rightharpoonup> CtxValue"
  setCookies :: "Cookie list"

text \<open>
  The type assertions \<open>v.(SessionInfo)\<close> and \<open>v.(domain.User)\<close> in their two-result
  form: \<open>None\<close> when the value is of another type (or nil).
\<close>

definition assert_SessionInfo :: "CtxValue \<Rightarrow> SessionInfo option" where
  "assert_SessionInfo v = (case v of VSessionInfo si \<Rightarrow> Some si | _ \<Rightarrow> None)"

definition assert_User :: "CtxValue \<Rightarrow> User option" where
  "assert_User v = (case v of VUser user \<Rightarrow> Some user | _ \<Rightarrow> None)"

definition c_Get :: "Context \<Rightarrow> string \<Rightarrow> CtxValue" where
  "c_Get c key = (case ctxStore c key of None \<Rightarrow> VNil | Some v \<Rightarrow> v)"

definition c_Set :: "Context \<Rightarrow> string \<Rightarrow> CtxValue \<Rightarrow> Context" where
  "c_Set c key v = c \<lparr> ctxStore := (ctxStore c)(key \<mapsto> v) \<rparr>"

definition http_SetCookie :: "Context \<Rightarrow> Cookie \<Rightarrow> Context" where
  "http_SetCookie c cookie = c \<lparr> setCookies := setCookies c @ [cookie] \<rparr>"

definition c_Request_Cookie :: "Context \<Rightarrow> string \<Rightarrow> 'w State \<Rightarrow> (error + string) \<times> 'w State" where
  "c_Request_Cookie c name s =
     (Request_Cookie (request c) name, s \<lparr> calls := calls s @ [RequestCookie name] \<rparr>)"

section \<open>Calls to the store and the caches\<close>

definition call_store_Set ::
  "'w AuthService \<Rightarrow> string \<Rightarrow> string \<Rightarrow> int \<Rightarrow> 'w State \<Rightarrow> error option \<times> 'w State" where
  "call_store_Set svc sessionID val exp s =
     (let (r, w) = store_Set (store svc) sessionID val exp (world s)
      in (r, s \<lparr> world := w, calls := calls s @ [StoreSet sessionID val exp] \<rparr>))"

definition call_store_Get ::
  "'w AuthService \<Rightarrow> string \<Rightarrow> 'w State \<Rightarrow> (error + string) \<times> 'w State" where
  "call_store_Get svc sessionID s =
     (let (r, w) = store_Get (store svc) sessionID (world s)
      in (r, s \<lparr> world := w, calls := calls s @ [StoreGet sessionID] \<rparr>))"

definition call_store_Del ::
  "'w AuthService \<Rightarrow> string \<Rightarrow> 'w State \<Rightarrow> error option \<times> 'w State" where
  "call_store_Del svc sessionID s =
     (let (r, w) = store_Del (store svc) sessionID (world s)
      in (r, s \<lparr> world := w, calls := calls s @ [StoreDel sessionID] \<rparr>))"

definition time_Now :: "'w AuthService \<Rightarrow> 'w State \<Rightarrow> int \<times> 'w State" where
  "time_Now svc s = (let (t, w) = Now svc (world s) in (t, s \<lparr> world := w \<rparr>))"

definition uuid_NewV4 :: "'w AuthService \<Rightarrow> 'w State \<Rightarrow> (error + string) \<times> 'w State" where
  "uuid_NewV4 svc s = (let (t, w) = NewV4 svc (world s) in (t, s \<lparr> world := w \<rparr>))"

text \<open>
  Modelled from the spec: \<open>Get\<close> and \<open>Set\<close> of \<open>ttlcache\<close>.  \<open>Set\<close> stores the value under
  the key and returns the stored item.  \<open>Get\<close> returns the live entry of the key; when
  there is none, a cache with a loader returns what the loader returns and a cache
  without one returns nil.
\<close>

definition cache_Set :: "string \<Rightarrow> User \<Rightarrow> 'w State \<Rightarrow> User \<times> 'w State" where
  "cache_Set key user s =
     (user, s \<lparr> cache := (cache s)(key \<mapsto> user), calls := calls s @ [CacheSet key] \<rparr>)"

definition basicAuthCache_Set :: "string \<Rightarrow> User \<Rightarrow> 'w State \<Rightarrow> User \<times> 'w State" where
  "basicAuthCache_Set key user s =
     (user, s \<lparr> basicAuthCache := (basicAuthCache s)(key \<mapsto> user),
                 calls := calls s @ [BasicAuthCacheSet key] \<rparr>)"

definition basicAuthCache_Get :: "string \<Rightarrow> 'w State \<Rightarrow> User option \<times> 'w State" where
  "basicAuthCache_Get key s =
     (basicAuthCache s key, s \<lparr> calls := calls s @ [BasicAuthCacheGet key] \<rparr>)"

text \<open>
  The loader that \<open>NewAuthService\<close> registers with the identity cache: on an error of the
  repository it logs and returns nil, otherwise it stores the projection of the account.
\<close>

definition loader :: "'w AuthService \<Rightarrow> string \<Rightarrow> 'w State \<Rightarrow> User option \<times> 'w State" where
  "loader svc username s =
     (let (r, s1) = accounts_GetByUsername svc username s
      in case r of
           Inl err \<Rightarrow> (None, s1)
         | Inr account \<Rightarrow>
             (let (item, s2) = cache_Set username (AccountToUser account) s1
              in (Some item, s2)))"

definition cache_Get :: "'w AuthService \<Rightarrow> string \<Rightarrow> 'w State \<Rightarrow> User option \<times> 'w State" where
  "cache_Get svc key s =
     (let s1 = s \<lparr> calls := calls s @ [CacheGet key] \<rparr>
      in case cache s key of
           Some user \<Rightarrow> (Some user, s1)
         | None \<Rightarrow> loader svc key s1)"

section \<open>Sessions\<close>

text \<open>
  \<open>LogoutUser\<close>: an error of \<open>Del\<close> is logged only.  \<open>http.SetCookie\<close> adds the
  \<open>Set-Cookie\<close> header.
\<close>

definition LogoutUser :: "'w AuthService \<Rightarrow> Context \<Rightarrow> 'w State \<Rightarrow> Context \<times> 'w State" where
  "LogoutUser svc c s =
     (let (cookie, s1) = c_Request_Cookie c ''gq_session'' s;
          s2 = (case cookie of
                  Inr v \<Rightarrow> snd (call_store_Del svc v s1)
                | Inl err \<Rightarrow> s1)
      in (http_SetCookie c
            \<lparr> Name = ''gq_session'', Value = [], Path = ''/'', SameSite = SameSiteLaxMode,
              HttpOnly = True, MaxAge = - 1, Expires = None \<rparr>,
          s2))"

text \<open>
  \<open>GetSessionInfo\<close> returns a pointer and an error: \<open>(Some si, None)\<close> is a session,
  \<open>(None, None)\<close> is ``no session'', \<open>(None, Some err)\<close> is a failure.
\<close>

definition GetSessionInfo ::
  "'w AuthService \<Rightarrow> Context \<Rightarrow> 'w State
     \<Rightarrow> (SessionInfo option \<times> error option) \<times> Context \<times> 'w State" where
  "GetSessionInfo svc c s =
     (case assert_SessionInfo (c_Get c ''session'') of
        Some si \<Rightarrow> ((Some si, None), c, s)
      | None \<Rightarrow>
         (let (cookie, s1) = c_Request_Cookie c ''gq_session'' s;
              sessionid = (case cookie of Inr v \<Rightarrow> v | Inl err \<Rightarrow> [])
          in if sessionid = [] then ((None, None), c_Set c ''session'' VNil, s1)
             else
               (let (r, s2) = call_store_Get svc sessionid s1
                in case r of
                     Inl err \<Rightarrow>
                       if errors_Is err ErrInvalidSession then
                         (let (c3, s3) = LogoutUser svc c s2
                          in ((None, None), c_Set c3 ''session'' VNil, s3))
                       else ((None, Some err), c, s2)
                   | Inr val \<Rightarrow>
                       (let si = \<lparr> sessID = sessionid, sessUsername = val \<rparr>
                        in ((Some si, None), c_Set c ''session'' (VSessionInfo si), s2)))))"

text \<open>
  \<open>LoginUserWithExpiration\<close>: errors of deleting the old session and of updating the
  last login are logged only.
\<close>

definition LoginUserWithExpiration ::
  "'w AuthService \<Rightarrow> Context \<Rightarrow> Account \<Rightarrow> int \<Rightarrow> 'w State
     \<Rightarrow> error option \<times> Context \<times> 'w State" where
  "LoginUserWithExpiration svc c userAccount exp s =
     (let (token, s1) = uuid_NewV4 svc s
      in case token of
           Inl err \<Rightarrow> (Some err, c, s1)
         | Inr sessionid \<Rightarrow>
             (let (r, s2) = call_store_Set svc sessionid (accUsername userAccount) exp s1
              in case r of
                   Some err \<Rightarrow> (Some (Errorv ''save session'' err), c, s2)
                 | None \<Rightarrow>
                     (let (oldCookie, s3) = c_Request_Cookie c ''gq_session'' s2;
                          s4 = (case oldCookie of
                                  Inr v \<Rightarrow> snd (call_store_Del svc v s3)
                                | Inl err \<Rightarrow> s3);
                          (now, s5) = time_Now svc s4;
                          s6 = snd (accounts_Update svc
                                      (userAccount \<lparr> accLastLogin := Some now \<rparr>) s5);
                          (now', s7) = time_Now svc s6
                      in (None,
                          http_SetCookie c
                            \<lparr> Name = ''gq_session'', Value = sessionid, Path = ''/'',
                              SameSite = SameSiteLaxMode, HttpOnly = True, MaxAge = 0,
                              Expires = Some (now' + exp) \<rparr>,
                          s7))))"

definition LoginUser ::
  "'w AuthService \<Rightarrow> Context \<Rightarrow> Account \<Rightarrow> 'w State \<Rightarrow> error option \<times> Context \<times> 'w State" where
  "LoginUser svc c userAccount s = LoginUserWithExpiration svc c userAccount (expiration svc) s"

section \<open>Identity resolution\<close>

text \<open>
  \<open>strings.EqualFold\<close> compares under Unicode case folding.  The service applies it to
  the first five bytes of the header and the ASCII constant \<open>basic\<close>; for a string of as
  many bytes as an ASCII string, folding agrees with comparing the bytes after mapping
  \<open>A\<close>..\<open>Z\<close> to lower case, which is what is modelled.
  \<open>strings.SplitN(s, ":", 2)\<close> splits at the first colon, if there is one.
\<close>

definition toLowerASCII :: "char \<Rightarrow> char" where
  "toLowerASCII ch =
     (let n = (of_char ch :: nat) in if 65 \<le> n \<and> n \<le> 90 then char_of (n + 32) else ch)"

definition strings_EqualFold :: "string \<Rightarrow> string \<Rightarrow> bool" where
  "strings_EqualFold a b = (map toLowerASCII a = map toLowerASCII b)"

definition strings_SplitN2 :: "string \<Rightarrow> string list" where
  "strings_SplitN2 b =
     (if CHR '':'' \<in> set b
      then [takeWhile (\<lambda>ch. ch \<noteq> CHR '':'') b, tl (dropWhile (\<lambda>ch. ch \<noteq> CHR '':'') b)]
      else [b])"

definition basic :: string where
  "basic = ''basic''"

text \<open>
  \<open>GetUser\<close> returns a user together with an error (\<open>None\<close> is nil).  When the type
  assertion \<open>c.Get("user").(domain.User)\<close> fails, \<open>user\<close> is the zero \<open>User\<close>; the
  branches of the Basic-Auth path that assign nothing leave it so.
\<close>

definition GetUser ::
  "'w AuthService \<Rightarrow> Context \<Rightarrow> 'w State \<Rightarrow> (User \<times> error option) \<times> Context \<times> 'w State" where
  "GetUser svc c s =
     (case assert_User (c_Get c ''user'') of
        Some user \<Rightarrow> ((user, None), c, s)
      | None \<Rightarrow>
         (let auth = Header_Get (request c) ''Authorization''
          in if auth \<noteq> [] then
               (let (item, s1) = basicAuthCache_Get auth s
                in case item of
                     Some user \<Rightarrow> ((user, None), c_Set c ''user'' (VUser user), s1)
                   | None \<Rightarrow>
                       (let prefixLen = length basic
                        in if length auth > prefixLen + 1
                              \<and> strings_EqualFold (take prefixLen auth) basic
                           then
                             (case DecodeString svc (drop (prefixLen + 1) auth) of
                                Inl err \<Rightarrow> ((AnonymousUser, Some err), c, s1)
                              | Inr b \<Rightarrow>
                                  (let cred = strings_SplitN2 b
                                   in if length cred = 2 then
                                        (let (r, s2) = Authenticate svc (cred ! 0) (cred ! 1) s1
                                         in case r of
                                              Inl err \<Rightarrow> ((AnonymousUser, Some err), c, s2)
                                            | Inr account \<Rightarrow>
                                                (let user = AccountToUser account;
                                                     s3 = snd (basicAuthCache_Set auth user s2)
                                                 in ((user, None), c_Set c ''user'' (VUser user), s3)))
                                      else ((zeroUser, None), c_Set c ''user'' (VUser zeroUser), s1)))
                           else ((zeroUser, None), c_Set c ''user'' (VUser zeroUser), s1)))
             else
               (let (r, c1, s1) = GetSessionInfo svc c s
                in case r of
                     (session, Some err) \<Rightarrow>
                       ((AnonymousUser, Some (Wrapf ''auth: get session user'' err)), c1, s1)
                   | (None, None) \<Rightarrow> ((AnonymousUser, None), c1, s1)
                   | (Some session, None) \<Rightarrow>
                       (let (item, s2) = cache_Get svc (sessUsername session) s1
                        in case item of
                             None \<Rightarrow> ((AnonymousUser, None), c1, s2)
                           | Some user \<Rightarrow> ((user, None), c_Set c1 ''user'' (VUser user), s2)))))"

section \<open>The login handler\<close>

text \<open>
  The server holds the service and its configuration.  Reading a file, decoding JSON and
  joining a path are parameters.  A handler's outcome is an \<open>echo.HTTPError\<close> (status and
  message, the message being a text or the text of an error), another error, or a
  response.
\<close>

record 'w Server =
  auth :: "'w AuthService"
  ProjectsRoot :: string
  Join :: "string list \<Rightarrow> string"
  ReadFile :: "string \<Rightarrow> 'w \<Rightarrow> error + string"
  Unmarshal :: "string \<Rightarrow> error + Profile"

datatype Message = Text string | ErrorText error

datatype Response = HTTPError nat Message | Failure error | JSON nat User | NoContent nat

text \<open>Both fields of the login form carry the tag \<open>validate:"required"\<close>: not empty.\<close>

definition validate_Struct :: "LoginForm \<Rightarrow> error option" where
  "validate_Struct form =
     (let failed = (if formUsername form = [] then [''Username''] else [])
                 @ (if formPassword form = [] then [''Password''] else [])
      in if failed = [] then None else Some (ValidationErrors failed))"

definition getUserProfile :: "'w Server \<Rightarrow> User \<Rightarrow> 'w State \<Rightarrow> Profile \<times> error option" where
  "getUserProfile srv user s =
     (if IsAuthenticated user then
        (let dashboardPath = Join srv [ProjectsRoot srv, Username user, ''profile.json'']
         in case ReadFile srv dashboardPath (world s) of
              Inr content \<Rightarrow>
                (case Unmarshal srv content of
                   Inl err \<Rightarrow> (None, Some (Wrapf ''parsing user profile file'' err))
                 | Inr userProfile \<Rightarrow> (userProfile, None))
            | Inl err \<Rightarrow>
                if \<not> errors_Is err ErrNotExist
                then (None, Some (Wrapf ''reading user profile file'' err))
                else (None, None))
      else (None, None))"

definition handleLogin :: "'w Server \<Rightarrow> Context \<Rightarrow> 'w State \<Rightarrow> Response \<times> Context \<times> 'w State" where
  "handleLogin srv c s =
     (case Bind (request c) of
        Inl err \<Rightarrow> (HTTPError 400 (ErrorText err), c, s)
      | Inr form \<Rightarrow>
          (case validate_Struct form of
             Some err \<Rightarrow> (HTTPError 400 (ErrorText err), c, s)
           | None \<Rightarrow>
               (let (r, s1) = Authenticate (auth srv) (formUsername form) (formPassword form) s
                in case r of
                     Inl err \<Rightarrow>
                       (HTTPError 401 (Text ''Please provide valid credentials''), c, s1)
                   | Inr account \<Rightarrow>
                       (let (failed, c2, s2) = LoginUser (auth srv) c account s1
                        in case failed of
                             Some err \<Rightarrow> (Failure err, c2, s2)
                           | None \<Rightarrow>
                               (let user = AccountToUser account;
                                    user' = (if Profile user = None
                                             then user \<lparr> Profile := fst (getUserProfile srv user s2) \<rparr>
                                             else user)
                                in (JSON 200 user', c2, s2))))))"

section \<open>The two resolution paths\<close>

text \<open>
  The calls of the cookie path of \<open>GetUser\<close> (the session cookie, the session store, the
  identity cache) and the calls of its Basic-Auth path (the credential cache, the lookup
  by email).  A lookup by username belongs to neither: \<open>Authenticate\<close> makes it on the
  Basic-Auth path and the loader of the identity cache on the cookie path.
  \<open>new_calls s s'\<close> are the calls recorded between the states \<open>s\<close> and \<open>s'\<close>.
\<close>

fun session_path_call :: "Call \<Rightarrow> bool" where
  "session_path_call (RequestCookie name) = True"
| "session_path_call (StoreGet sessionID) = True"
| "session_path_call (StoreDel sessionID) = True"
| "session_path_call (StoreSet sessionID val exp) = True"
| "session_path_call (CacheGet key) = True"
| "session_path_call (CacheSet key) = True"
| "session_path_call other = False"

fun basic_path_call :: "Call \<Rightarrow> bool" where
  "basic_path_call (BasicAuthCacheGet key) = True"
| "basic_path_call (BasicAuthCacheSet key) = True"
| "basic_path_call (AccountsGetByEmail email) = True"
| "basic_path_call other = False"

definition new_calls :: "'w State \<Rightarrow> 'w State \<Rightarrow> Call list" where
  "new_calls s s' = drop (length (calls s)) (calls s')"

definition extends_by :: "(Call \<Rightarrow> bool) \<Rightarrow> 'w State \<Rightarrow> 'w State \<Rightarrow> bool" where
  "extends_by P s s' = (calls s' = calls s @ new_calls s s' \<and> list_all P (new_calls s s'))"



text \<open>
  No identity is both authenticated and guest.  The identities a request can be answered
  from are the entries of the two caches and the user memoized in the context.
\<close>

definition consistent :: "User \<Rightarrow> bool" where
  "consistent u = (\<not> (IsAuthenticated u \<and> IsGuest u))"

definition users_consistent :: "Context \<Rightarrow> 'w State \<Rightarrow> bool" where
  "users_consistent c s =
     ((\<forall>u \<in> ran (cache s). consistent u)
      \<and> (\<forall>u \<in> ran (basicAuthCache s). consistent u)
      \<and> (case assert_User (c_Get c ''user'') of Some u \<Rightarrow> consistent u | None \<Rightarrow> True))"

section \<open>A concrete deployment\<close>

text \<open>
  The service over the PostgreSQL repository and the Redis store, with stand-ins for the
  parameters: passwords are compared as stored, the decoder knows the payloads below, the
  token source hands out the tokens of a list, the clock is a reading of the world.
  The theorems are evaluated on it.
\<close>

record World =
  pg :: Db
  rdb :: Redis
  clock :: int
  tokens :: "string list"

definition pgAccounts :: "World AccountsRepository" where
  "pgAccounts =
     \<lparr> GetByUsername = (\<lambda>username w. (repo_GetByUsername (pg w) username, w)),
       GetByEmail = (\<lambda>email w. (repo_GetByEmail (pg w) email, w)),
       Update = (\<lambda>account w. (fst (repo_Update (pg w) account),
                                w \<lparr> pg := snd (repo_Update (pg w) account) \<rparr>)) \<rparr>"

definition redisStore :: "World SessionStore" where
  "redisStore =
     \<lparr> store_Set = (\<lambda>sessionID val exp w.
         (fst (RedisSessionStore_Set sessionID val exp (rdb w)),
          w \<lparr> rdb := snd (RedisSessionStore_Set sessionID val exp (rdb w)) \<rparr>)),
       store_Get = (\<lambda>sessionID w.
         (fst (RedisSessionStore_Get sessionID (rdb w)),
          w \<lparr> rdb := snd (RedisSessionStore_Get sessionID (rdb w)) \<rparr>)),
       store_Del = (\<lambda>sessionID w.
         (fst (RedisSessionStore_Del sessionID (rdb w)),
          w \<lparr> rdb := snd (RedisSessionStore_Del sessionID (rdb w)) \<rparr>)) \<rparr>"

definition testDecode :: "string \<Rightarrow> error + string" where
  "testDecode payload =
     (if payload = ''YWxpY2U6czNjcmV0'' then Inr ''alice:s3cret''
      else if payload = ''YWxpY2U6d3Jvbmc='' then Inr ''alice:wrong''
      else if payload = ''YWxpY2U='' then Inr ''alice''
      else Inl (Errorf ''illegal base64 data''))"

definition testService :: "World AuthService" where
  "testService =
     \<lparr> expiration = 3600,
       accounts = pgAccounts,
       store = redisStore,
       CheckPassword = (\<lambda>account password. accPassword account = password),
       DecodeString = testDecode,
       NewV4 = (\<lambda>w. case tokens w of
                        [] \<Rightarrow> (Inl (Errorf ''uuid: no random data''), w)
                      | t # ts \<Rightarrow> (Inr t, w \<lparr> tokens := ts \<rparr>)),
       Now = (\<lambda>w. (clock w, w)) \<rparr>"

definition alice :: DbUser where
  "alice =
     \<lparr> dbUsername = ''alice'', dbEmail = ''alice@x.com'', dbPassword = ''s3cret'',
       dbFirstName = ''Alice'', dbLastName = ''A'', dbIsSuperuser = False, dbIsActive = True,
       dbCreated = Some 1, dbConfirmed = Some 2, dbLastLogin = None, dbProfile = None \<rparr>"

definition carol :: DbUser where
  "carol =
     \<lparr> dbUsername = ''carol'', dbEmail = ''carol@x.com'', dbPassword = ''pw'',
       dbFirstName = ''Carol'', dbLastName = ''C'', dbIsSuperuser = False, dbIsActive = False,
       dbCreated = Some 1, dbConfirmed = None, dbLastLogin = None, dbProfile = None \<rparr>"

definition alice2 :: DbUser where
  "alice2 = alice \<lparr> dbUsername := ''alice2'' \<rparr>"

definition testWorld :: "DbUser list \<Rightarrow> World" where
  "testWorld rows =
     \<lparr> pg = \<lparr> users = rows, failure = None, sql_LIKE = (\<lambda>text pattern. text = pattern) \<rparr>,
       rdb = \<lparr> entries = [''sid-alice'' \<mapsto> (''alice'', 3600), ''sid-ghost'' \<mapsto> (''ghost'', 3600)],
               rdb_failure = None \<rparr>,
       clock = 1000,
       tokens = [''token-1'', ''token-2''] \<rparr>"

definition testState :: "DbUser list \<Rightarrow> World State" where
  "testState rows =
     \<lparr> world = testWorld rows, cache = Map.empty, basicAuthCache = Map.empty, calls = [] \<rparr>"

definition testRequest :: "string \<Rightarrow> (string \<times> string) list \<Rightarrow> Request" where
  "testRequest authorization cookies =
     \<lparr> Header = (if authorization = [] then Map.empty
                  else [''Authorization'' \<mapsto> [authorization]]),
       Cookies = cookies,
       Bind = Inl (Errorf ''no body'') \<rparr>"

definition testContext :: "string \<Rightarrow> (string \<times> string) list \<Rightarrow> Context" where
  "testContext authorization cookies =
     \<lparr> request = testRequest authorization cookies, ctxStore = Map.empty, setCookies = [] \<rparr>"

definition loginContext :: "string \<Rightarrow> string \<Rightarrow> Context" where
  "loginContext username password =
     \<lparr> request = \<lparr> Header = Map.empty, Cookies = [],
                     Bind = Inr \<lparr> formUsername = username, formPassword = password \<rparr> \<rparr>,
       ctxStore = Map.empty, setCookies = [] \<rparr>"

definition testServer :: "World Server" where
  "testServer =
     \<lparr> auth = testService,
       ProjectsRoot = ''/publish'',
       Join = (\<lambda>parts. concat (map (\<lambda>part. CHR ''/'' # part) parts)),
       ReadFile = (\<lambda>path w. Inl ErrNotExist),
       Unmarshal = (\<lambda>content. Inr None) \<rparr>"

definition redisDownState :: "DbUser list \<Rightarrow> World State" where
  "redisDownState rows =
     (testState rows)
       \<lparr> world := (testWorld rows)
            \<lparr> rdb := \<lparr> entries = Map.empty,
                        rdb_failure = Some (Errorf ''dial tcp: connection refused'') \<rparr> \<rparr> \<rparr>"

section \<open>Properties of credential verification\<close>

lemmas test_defs = testService_def pgAccounts_def redisStore_def testState_def testWorld_def
  repo_GetByUsername_def repo_GetByEmail_def repo_find_def db_Get_def db_Select_def
  alice_def carol_def alice2_def toAccount_def

lemma Authenticate_result:
  "fst (Authenticate svc login password s) =
     (case fst (if CHR ''@'' \<in> set login then GetByEmail (accounts svc) login (world s)
                else GetByUsername (accounts svc) login (world s)) of
        Inl err \<Rightarrow> Inl err
      | Inr account \<Rightarrow>
          if \<not> accActive account then Inl ErrUserNotFound
          else if \<not> CheckPassword svc account password then Inl ErrInvalidPassword
          else Inr account)"
  by (simp add: Authenticate_def accounts_GetByEmail_def accounts_GetByUsername_def
        Let_def case_prod_beta split: sum.splits)

lemma Authenticate_calls:
  "calls (snd (Authenticate svc login password s)) =
     calls s @ [if CHR ''@'' \<in> set login then AccountsGetByEmail login
                else AccountsGetByUsername login]"
  by (simp add: Authenticate_def accounts_GetByEmail_def accounts_GetByUsername_def
        Let_def case_prod_beta split: sum.splits)

lemma Authenticate_caches:
  "cache (snd (Authenticate svc login password s)) = cache s \<and>
   basicAuthCache (snd (Authenticate svc login password s)) = basicAuthCache s"
  by (simp add: Authenticate_def accounts_GetByEmail_def accounts_GetByUsername_def
        Let_def case_prod_beta split: sum.splits)

text \<open>
  What \<open>Authenticate\<close> returns in general is \<open>Authenticate_result\<close>: one lookup, by email
  when the login contains \<open>@\<close> and by username otherwise; an error of the lookup is
  returned as the repository gave it; a found, inactive account gives \<open>ErrUserNotFound\<close>;
  a found, active account whose password check fails gives \<open>ErrInvalidPassword\<close>;
  otherwise the account itself is returned.

  C1, on the PostgreSQL repository with the rows of the active \<open>alice\<close> and the inactive
  \<open>carol\<close>.  The routing of the lookup, the wrong password and the success are as the
  claim says.  For the inactive \<open>carol\<close> the error is the service's \<open>ErrUserNotFound\<close>.
  For \<open>bob\<close>, who has no row, the error is the repository's \<open>ErrAccountNotFound\<close>, which
  \<open>Authenticate\<close> passes on unchanged: the absent and the inactive account are signalled
  by two different errors, so the error of an inactive account is a distinct one.
\<close>

theorem Authenticate_absent_differs_from_inactive:
  "fst (Authenticate testService ''bob'' ''x'' (testState [alice, carol]))
     = Inl ErrAccountNotFound
   \<and> fst (Authenticate testService ''carol'' ''pw'' (testState [alice, carol]))
     = Inl ErrUserNotFound
   \<and> fst (Authenticate testService ''bob'' ''x'' (testState [alice, carol]))
     \<noteq> fst (Authenticate testService ''carol'' ''pw'' (testState [alice, carol]))
   \<and> fst (Authenticate testService ''bob@x.com'' ''x'' (testState [alice, carol]))
     = Inl ErrAccountNotFound
   \<and> fst (Authenticate testService ''alice'' ''wrong'' (testState [alice, carol]))
     = Inl ErrInvalidPassword
   \<and> fst (Authenticate testService ''alice'' ''s3cret'' (testState [alice, carol]))
     = Inr (toAccount alice)
   \<and> fst (Authenticate testService ''alice@x.com'' ''s3cret'' (testState [alice, carol]))
     = Inr (toAccount alice)
   \<and> calls (snd (Authenticate testService ''alice@x.com'' ''s3cret'' (testState [alice, carol])))
     = [AccountsGetByEmail ''alice@x.com'']
   \<and> calls (snd (Authenticate testService ''alice'' ''s3cret'' (testState [alice, carol])))
     = [AccountsGetByUsername ''alice'']"
  by (simp add: Authenticate_result Authenticate_calls test_defs)

lemma toAccount_active: "accActive (toAccount u) = dbIsActive u"
  by (simp add: toAccount_def)

lemma repo_GetByEmail_cases:
  "repo_GetByEmail db email =
     (case failure db of
        Some err \<Rightarrow> Inl err
      | None \<Rightarrow>
          (case filter (\<lambda>u. sql_LIKE db (dbEmail u) email) (users db) of
             [] \<Rightarrow> Inl ErrAccountNotFound
           | [u] \<Rightarrow> Inr (toAccount u)
           | u # v # rest \<Rightarrow> Inl (Errorf ''More than 1 accounts with email address'')))"
  by (simp add: repo_GetByEmail_def db_Select_def split: option.splits list.splits)

text \<open>
  C7.  For a login that contains \<open>@\<close>, \<open>Authenticate\<close> over the PostgreSQL repository
  makes exactly one lookup, by email.  When the query fails its error is returned.
  Otherwise the rows whose email matches decide: none gives \<open>ErrAccountNotFound\<close>; two
  or more give the error ``More than 1 accounts with email address'' and no account is
  picked; exactly one row is the account that the active and password checks run on.
\<close>

theorem Authenticate_email_lookup:
  assumes "CHR ''@'' \<in> set login" and "accounts svc = pgAccounts"
  shows "calls (snd (Authenticate svc login password s)) = calls s @ [AccountsGetByEmail login]
    \<and> (case failure (pg (world s)) of
          Some err \<Rightarrow> fst (Authenticate svc login password s) = Inl err
        | None \<Rightarrow>
           (case filter (\<lambda>u. sql_LIKE (pg (world s)) (dbEmail u) login) (users (pg (world s))) of
              [] \<Rightarrow> fst (Authenticate svc login password s) = Inl ErrAccountNotFound
            | [u] \<Rightarrow> fst (Authenticate svc login password s) =
                       (if \<not> dbIsActive u then Inl ErrUserNotFound
                        else if \<not> CheckPassword svc (toAccount u) password
                             then Inl ErrInvalidPassword
                        else Inr (toAccount u))
            | u # v # rest \<Rightarrow> fst (Authenticate svc login password s) =
                       Inl (Errorf ''More than 1 accounts with email address'')))"
proof -
  have lookup:
    "fst (GetByEmail (accounts svc) login (world s)) = repo_GetByEmail (pg (world s)) login"
    using assms(2) by (simp add: pgAccounts_def)
  have "calls (snd (Authenticate svc login password s)) = calls s @ [AccountsGetByEmail login]"
    using assms(1) by (simp add: Authenticate_calls)
  moreover have "fst (Authenticate svc login password s) =
     (case repo_GetByEmail (pg (world s)) login of
        Inl err \<Rightarrow> Inl err
      | Inr account \<Rightarrow>
          if \<not> accActive account then Inl ErrUserNotFound
          else if \<not> CheckPassword svc account password then Inl ErrInvalidPassword
          else Inr account)"
    using assms(1) lookup by (simp add: Authenticate_result)
  ultimately show ?thesis
    by (simp add: repo_GetByEmail_cases toAccount_active split: option.splits list.splits)
qed

theorem Authenticate_email_lookup_witness:
  "fst (Authenticate testService ''bob@x.com'' ''x'' (testState [alice, carol]))
     = Inl ErrAccountNotFound
   \<and> fst (Authenticate testService ''alice@x.com'' ''s3cret'' (testState [alice, carol, alice2]))
     = Inl (Errorf ''More than 1 accounts with email address'')
   \<and> fst (Authenticate testService ''alice@x.com'' ''s3cret'' (testState [alice, carol]))
     = Inr (toAccount alice)
   \<and> calls (snd (Authenticate testService ''alice@x.com'' ''s3cret''
                   (testState [alice, carol, alice2])))
     = [AccountsGetByEmail ''alice@x.com'']"
  using
    Authenticate_email_lookup
      [of "''bob@x.com''" testService "''x''" "testState [alice, carol]"]
    Authenticate_email_lookup
      [of "''alice@x.com''" testService "''s3cret''" "testState [alice, carol, alice2]"]
    Authenticate_email_lookup
      [of "''alice@x.com''" testService "''s3cret''" "testState [alice, carol]"]
  by (simp add: test_defs)

section \<open>Properties of the login handler\<close>

lemma handleLogin_rejects:
  assumes "Bind (request c) = Inr form" and "validate_Struct form = None"
    and "fst (Authenticate (auth srv) (formUsername form) (formPassword form) s) = Inl err"
  shows "fst (handleLogin srv c s) = HTTPError 401 (Text ''Please provide valid credentials'')"
    and "fst (snd (handleLogin srv c s)) = c"
    and "snd (snd (handleLogin srv c s)) =
           snd (Authenticate (auth srv) (formUsername form) (formPassword form) s)"
  using assms by (simp_all add: handleLogin_def Let_def case_prod_beta split: sum.splits)

text \<open>
  C9.  Take two login requests that both pass binding and validation and for which
  \<open>Authenticate\<close> fails, with whatever errors (an absent account, an inactive account, a
  wrong password).  \<open>handleLogin\<close> answers both with the same response, the HTTP error 401
  with the message ``Please provide valid credentials'', and writes no cookie.
\<close>

theorem handleLogin_failures_indistinguishable:
  assumes "Bind (request ca) = Inr forma" and "validate_Struct forma = None"
    and "Bind (request cb) = Inr formb" and "validate_Struct formb = None"
    and "fst (Authenticate (auth srv) (formUsername forma) (formPassword forma) sa) = Inl erra"
    and "fst (Authenticate (auth srv) (formUsername formb) (formPassword formb) sb) = Inl errb"
  shows "fst (handleLogin srv ca sa) = fst (handleLogin srv cb sb)
    \<and> fst (handleLogin srv ca sa) = HTTPError 401 (Text ''Please provide valid credentials'')
    \<and> setCookies (fst (snd (handleLogin srv ca sa))) = setCookies ca
    \<and> setCookies (fst (snd (handleLogin srv cb sb))) = setCookies cb"
  using handleLogin_rejects [OF assms(1,2,5)] handleLogin_rejects [OF assms(3,4,6)] by simp

theorem handleLogin_failures_indistinguishable_witness:
  "fst (handleLogin testServer (loginContext ''bob'' ''x'') (testState [alice, carol]))
     = fst (handleLogin testServer (loginContext ''alice'' ''wrong'') (testState [alice, carol]))
   \<and> fst (handleLogin testServer (loginContext ''carol'' ''pw'') (testState [alice, carol]))
     = fst (handleLogin testServer (loginContext ''alice'' ''wrong'') (testState [alice, carol]))
   \<and> fst (handleLogin testServer (loginContext ''bob'' ''x'') (testState [alice, carol]))
     = HTTPError 401 (Text ''Please provide valid credentials'')"
proof -
  let ?s = "testState [alice, carol]"
  have bind: "\<And>u p. Bind (request (loginContext u p)) = Inr \<lparr> formUsername = u, formPassword = p \<rparr>"
    by (simp add: loginContext_def)
  have valid:
    "validate_Struct \<lparr> formUsername = ''bob'', formPassword = ''x'' \<rparr> = None"
    "validate_Struct \<lparr> formUsername = ''carol'', formPassword = ''pw'' \<rparr> = None"
    "validate_Struct \<lparr> formUsername = ''alice'', formPassword = ''wrong'' \<rparr> = None"
    by (simp_all add: validate_Struct_def)
  have bob: "fst (Authenticate (auth testServer)
                (formUsername \<lparr> formUsername = ''bob'', formPassword = ''x'' \<rparr>)
                (formPassword \<lparr> formUsername = ''bob'', formPassword = ''x'' \<rparr>) ?s)
             = Inl ErrAccountNotFound"
    by (simp add: testServer_def Authenticate_result test_defs)
  have carol: "fst (Authenticate (auth testServer)
                (formUsername \<lparr> formUsername = ''carol'', formPassword = ''pw'' \<rparr>)
                (formPassword \<lparr> formUsername = ''carol'', formPassword = ''pw'' \<rparr>) ?s)
             = Inl ErrUserNotFound"
    by (simp add: testServer_def Authenticate_result test_defs)
  have wrong: "fst (Authenticate (auth testServer)
                (formUsername \<lparr> formUsername = ''alice'', formPassword = ''wrong'' \<rparr>)
                (formPassword \<lparr> formUsername = ''alice'', formPassword = ''wrong'' \<rparr>) ?s)
             = Inl ErrInvalidPassword"
    by (simp add: testServer_def Authenticate_result test_defs)
  show ?thesis
    using handleLogin_failures_indistinguishable [OF bind valid(1) bind valid(3) bob wrong]
      handleLogin_failures_indistinguishable [OF bind valid(2) bind valid(3) carol wrong]
    by metis
qed

section \<open>Properties of session resolution\<close>

lemma extends_byI:
  "calls s' = calls s @ new \<Longrightarrow> list_all P new \<Longrightarrow> extends_by P s s'"
  by (simp add: extends_by_def new_calls_def)



lemma extends_by_new_calls:
  "extends_by P s s' \<Longrightarrow> \<forall>x \<in> set (new_calls s s'). P x"
  by (simp add: extends_by_def list_all_iff)

lemma LogoutUser_effect:
  "fst (LogoutUser svc c s) =
     c \<lparr> setCookies := setCookies c @
           [\<lparr> Name = ''gq_session'', Value = [], Path = ''/'', SameSite = SameSiteLaxMode,
              HttpOnly = True, MaxAge = - 1, Expires = None \<rparr>] \<rparr>"
  "calls (snd (LogoutUser svc c s)) =
     calls s @ RequestCookie ''gq_session'' #
       (case Request_Cookie (request c) ''gq_session'' of
          Inr v \<Rightarrow> [StoreDel v] | Inl err \<Rightarrow> [])"
  "cache (snd (LogoutUser svc c s)) = cache s"
  "basicAuthCache (snd (LogoutUser svc c s)) = basicAuthCache s"
  by (simp_all add: LogoutUser_def c_Request_Cookie_def call_store_Del_def http_SetCookie_def
        Let_def case_prod_beta split: sum.splits)

lemma LogoutUser_extends:
  "extends_by (\<lambda>x. session_path_call x \<and> \<not> basic_path_call x) s (snd (LogoutUser svc c s))"
  by (rule extends_byI [OF LogoutUser_effect(2)]) (simp split: sum.splits)

lemma GetSessionInfo_caches:
  "cache (snd (snd (GetSessionInfo svc c s))) = cache s"
  "basicAuthCache (snd (snd (GetSessionInfo svc c s))) = basicAuthCache s"
  by (simp_all add: GetSessionInfo_def LogoutUser_effect c_Request_Cookie_def call_store_Get_def
        Let_def case_prod_beta split: sum.splits option.splits)




lemma cache_Get_basicAuthCache:
  "basicAuthCache (snd (cache_Get svc key s)) = basicAuthCache s"
  by (simp add: cache_Get_def loader_def accounts_GetByUsername_def cache_Set_def
        Let_def case_prod_beta split: sum.splits option.splits)

lemma LogoutUser_cookie:
  assumes "Request_Cookie (request c) ''gq_session'' = Inr sid"
  shows "LogoutUser svc c s0 =
           (c \<lparr> setCookies := setCookies c @
                 [\<lparr> Name = ''gq_session'', Value = [], Path = ''/'', SameSite = SameSiteLaxMode,
                    HttpOnly = True, MaxAge = - 1, Expires = None \<rparr>] \<rparr>,
            s0 \<lparr> world := snd (store_Del (store svc) sid (world s0)),
                 calls := calls s0 @ [RequestCookie ''gq_session'', StoreDel sid] \<rparr>)"
  using assms
  by (simp add: LogoutUser_def c_Request_Cookie_def call_store_Del_def http_SetCookie_def
        Let_def case_prod_beta)

text \<open>
  C3.  The request has no memoized session and carries the session cookie with a
  non-empty identifier \<open>sid\<close>, and the store answers the lookup with an error.  When the
  error is \<open>ErrInvalidSession\<close> (the identifier is not found or has expired),
  \<open>GetSessionInfo\<close> reports ``no session'' with a nil error, and what it leaves behind is
  what \<open>LogoutUser\<close> leaves behind, run after the lookup, with the key \<open>session\<close> of the
  context set to nil: the store is the one that its \<open>Del\<close> of \<open>sid\<close> leaves after the
  lookup, the response carries the cookie \<open>gq_session\<close> with an empty value and
  \<open>MaxAge = -1\<close>, and the caches are untouched.  Any other error of the store is returned
  as the error; the response is not touched and the store is as the lookup left it.
  The last conjunct is \<open>LogoutUser\<close> itself on this request, from any state \<open>s0\<close>: it
  applies the store's \<open>Del\<close> to \<open>sid\<close> and writes the same clearing cookie.
\<close>

theorem GetSessionInfo_store_error:
  fixes s' s0 :: "'w State"
  assumes "assert_SessionInfo (c_Get c ''session'') = None"
    and "Request_Cookie (request c) ''gq_session'' = Inr sid" and "sid \<noteq> []"
    and "fst (store_Get (store svc) sid (world s)) = Inl err"
  defines "s' \<equiv> snd (call_store_Get svc sid (snd (c_Request_Cookie c ''gq_session'' s)))"
  shows "(if errors_Is err ErrInvalidSession then
           fst (GetSessionInfo svc c s) = (None, None)
           \<and> snd (GetSessionInfo svc c s) =
               (c_Set (fst (LogoutUser svc c s')) ''session'' VNil, snd (LogoutUser svc c s'))
           \<and> setCookies (fst (LogoutUser svc c s')) =
               setCookies c @
                 [\<lparr> Name = ''gq_session'', Value = [], Path = ''/'', SameSite = SameSiteLaxMode,
                    HttpOnly = True, MaxAge = - 1, Expires = None \<rparr>]
           \<and> calls (snd (LogoutUser svc c s')) =
               calls s @ [RequestCookie ''gq_session'', StoreGet sid,
                          RequestCookie ''gq_session'', StoreDel sid]
           \<and> world (snd (LogoutUser svc c s')) =
               snd (store_Del (store svc) sid (snd (store_Get (store svc) sid (world s))))
           \<and> cache (snd (LogoutUser svc c s')) = cache s
           \<and> basicAuthCache (snd (LogoutUser svc c s')) = basicAuthCache s
         else
           fst (GetSessionInfo svc c s) = (None, Some err)
           \<and> fst (snd (GetSessionInfo svc c s)) = c
           \<and> calls (snd (snd (GetSessionInfo svc c s))) =
               calls s @ [RequestCookie ''gq_session'', StoreGet sid]
           \<and> world (snd (snd (GetSessionInfo svc c s))) =
               snd (store_Get (store svc) sid (world s)))
       \<and> LogoutUser svc c s0 =
           (c \<lparr> setCookies := setCookies c @
                 [\<lparr> Name = ''gq_session'', Value = [], Path = ''/'', SameSite = SameSiteLaxMode,
                    HttpOnly = True, MaxAge = - 1, Expires = None \<rparr>] \<rparr>,
            s0 \<lparr> world := snd (store_Del (store svc) sid (world s0)),
                 calls := calls s0 @ [RequestCookie ''gq_session'', StoreDel sid] \<rparr>)"
  using assms
  by (simp add: GetSessionInfo_def LogoutUser_cookie c_Request_Cookie_def call_store_Get_def
        c_Set_def Let_def case_prod_beta split: sum.splits)

lemmas ctx_defs = testContext_def testRequest_def c_Get_def assert_SessionInfo_def
  assert_User_def Request_Cookie_def Header_Get_def

theorem GetSessionInfo_store_error_witness:
  "fst (GetSessionInfo testService (testContext [] [(''gq_session'', ''stale'')])
          (testState [alice, carol])) = (None, None)
   \<and> setCookies (fst (snd (GetSessionInfo testService (testContext [] [(''gq_session'', ''stale'')])
          (testState [alice, carol])))) =
        [\<lparr> Name = ''gq_session'', Value = [], Path = ''/'', SameSite = SameSiteLaxMode,
           HttpOnly = True, MaxAge = - 1, Expires = None \<rparr>]
   \<and> calls (snd (snd (GetSessionInfo testService (testContext [] [(''gq_session'', ''stale'')])
          (testState [alice, carol])))) =
        [RequestCookie ''gq_session'', StoreGet ''stale'',
         RequestCookie ''gq_session'', StoreDel ''stale'']
   \<and> entries (rdb (world (snd (snd (GetSessionInfo testService
          (testContext [] [(''gq_session'', ''stale'')]) (testState [alice, carol]))))))
        = (entries (rdb (world (testState [alice, carol]))))(''stale'' := None)
   \<and> fst (GetSessionInfo testService (testContext [] [(''gq_session'', ''stale'')])
          (redisDownState [alice, carol])) =
        (None, Some (Errorv ''redis get session'' (Errorf ''dial tcp: connection refused'')))
   \<and> setCookies (fst (snd (GetSessionInfo testService (testContext [] [(''gq_session'', ''stale'')])
          (redisDownState [alice, carol])))) = []
   \<and> entries (rdb (world (testState [alice, carol]))) ''sid-alice'' = Some (''alice'', 3600)
   \<and> entries (rdb (world (snd (LogoutUser testService
          (testContext [] [(''gq_session'', ''sid-alice'')]) (testState [alice, carol])))))
        ''sid-alice'' = None
   \<and> entries (rdb (world (snd (LogoutUser testService
          (testContext [] [(''gq_session'', ''sid-alice'')]) (testState [alice, carol])))))
        ''sid-ghost'' = Some (''ghost'', 3600)"
proof -
  let ?c = "testContext [] [(''gq_session'', ''stale'')]"
  let ?ca = "testContext [] [(''gq_session'', ''sid-alice'')]"
  let ?s = "testState [alice, carol]"
  have memo: "\<And>cs. assert_SessionInfo (c_Get (testContext [] cs) ''session'') = None"
    by (simp add: ctx_defs)
  have cookie: "\<And>v. Request_Cookie (request (testContext [] [(''gq_session'', v)])) ''gq_session'' = Inr v"
    by (simp add: ctx_defs)
  have ne: "''stale'' \<noteq> []" "''sid-alice'' \<noteq> []" by simp_all
  have expired: "fst (store_Get (store testService) ''stale'' (world ?s)) = Inl ErrInvalidSession"
    by (simp add: test_defs RedisSessionStore_Get_def)
  have down: "\<And>v. fst (store_Get (store testService) v (world (redisDownState [alice, carol])))
                   = Inl (Errorv ''redis get session'' (Errorf ''dial tcp: connection refused''))"
    by (simp add: test_defs redisDownState_def RedisSessionStore_Get_def)
  have c0: "setCookies ?c = []" "calls ?s = []"
    by (simp_all add: testContext_def testState_def)
  have del: "\<And>v. entries (rdb (snd (store_Del (store testService) v (world ?s))))
                = (entries (rdb (world ?s)))(v := None)"
    and get: "\<And>v. snd (store_Get (store testService) v (world ?s)) = world ?s"
    and live: "entries (rdb (world ?s)) ''sid-alice'' = Some (''alice'', 3600)"
              "entries (rdb (world ?s)) ''sid-ghost'' = Some (''ghost'', 3600)"
    by (simp_all add: test_defs RedisSessionStore_Del_def RedisSessionStore_Get_def
          split: option.splits)
  note expired_case = GetSessionInfo_store_error [OF memo cookie ne(1) expired, where ?s0.0 = ?s]
  note down_case = GetSessionInfo_store_error [OF memo cookie ne(1) down, where ?s0.0 = ?s]
  note logout = GetSessionInfo_store_error [OF memo cookie ne(2) down, where ?s0.0 = ?s,
      THEN conjunct2]
  show ?thesis
    using expired_case down_case logout
    by (simp add: c0 c_Set_def del get live)
qed

section \<open>Properties of identity resolution\<close>

lemma length_basic: "length basic = 5"
  by (simp add: basic_def)

lemma GetUser_memo:
  "assert_User (c_Get c ''user'') = Some user \<Longrightarrow> GetUser svc c s = ((user, None), c, s)"
  by (simp add: GetUser_def)

lemma GetUser_basic_hit:
  assumes "assert_User (c_Get c ''user'') = None"
    and "Header_Get (request c) ''Authorization'' = a" and "a \<noteq> []"
    and "basicAuthCache s a = Some user"
  shows "GetUser svc c s =
           ((user, None), c_Set c ''user'' (VUser user),
            s \<lparr> calls := calls s @ [BasicAuthCacheGet a] \<rparr>)"
  using assms by (simp add: GetUser_def basicAuthCache_Get_def)

lemma GetUser_basic_scheme:
  assumes "assert_User (c_Get c ''user'') = None"
    and "Header_Get (request c) ''Authorization'' = a" and "a \<noteq> []"
    and "basicAuthCache s a = None"
    and "\<not> (length a > 6 \<and> strings_EqualFold (take 5 a) basic)"
  shows "GetUser svc c s =
           ((zeroUser, None), c_Set c ''user'' (VUser zeroUser),
            s \<lparr> calls := calls s @ [BasicAuthCacheGet a] \<rparr>)"
  using assms by (auto simp add: GetUser_def basicAuthCache_Get_def length_basic Let_def)

lemma GetUser_basic_decode:
  assumes "assert_User (c_Get c ''user'') = None"
    and "Header_Get (request c) ''Authorization'' = a" and "a \<noteq> []"
    and "basicAuthCache s a = None"
    and "length a > 6" and "strings_EqualFold (take 5 a) basic"
    and "DecodeString svc (drop 6 a) = Inl err"
  shows "GetUser svc c s =
           ((AnonymousUser, Some err), c, s \<lparr> calls := calls s @ [BasicAuthCacheGet a] \<rparr>)"
  using assms by (simp add: GetUser_def basicAuthCache_Get_def length_basic Let_def)

lemma GetUser_basic_no_colon:
  assumes "assert_User (c_Get c ''user'') = None"
    and "Header_Get (request c) ''Authorization'' = a" and "a \<noteq> []"
    and "basicAuthCache s a = None"
    and "length a > 6" and "strings_EqualFold (take 5 a) basic"
    and "DecodeString svc (drop 6 a) = Inr b" and "CHR '':'' \<notin> set b"
  shows "GetUser svc c s =
           ((zeroUser, None), c_Set c ''user'' (VUser zeroUser),
            s \<lparr> calls := calls s @ [BasicAuthCacheGet a] \<rparr>)"
  using assms
  by (simp add: GetUser_def basicAuthCache_Get_def length_basic Let_def strings_SplitN2_def)

lemma GetUser_basic_verify:
  assumes "assert_User (c_Get c ''user'') = None"
    and "Header_Get (request c) ''Authorization'' = a" and "a \<noteq> []"
    and "basicAuthCache s a = None"
    and "length a > 6" and "strings_EqualFold (take 5 a) basic"
    and "DecodeString svc (drop 6 a) = Inr b" and "CHR '':'' \<in> set b"
  shows "GetUser svc c s =
           (case Authenticate svc (takeWhile (\<lambda>ch. ch \<noteq> CHR '':'') b)
                   (tl (dropWhile (\<lambda>ch. ch \<noteq> CHR '':'') b))
                   (s \<lparr> calls := calls s @ [BasicAuthCacheGet a] \<rparr>) of
              (Inl err, s2) \<Rightarrow> ((AnonymousUser, Some err), c, s2)
            | (Inr account, s2) \<Rightarrow>
                ((AccountToUser account, None),
                 c_Set c ''user'' (VUser (AccountToUser account)),
                 s2 \<lparr> basicAuthCache := (basicAuthCache s2)(a \<mapsto> AccountToUser account),
                      calls := calls s2 @ [BasicAuthCacheSet a] \<rparr>))"
  using assms
  by (simp add: GetUser_def basicAuthCache_Get_def basicAuthCache_Set_def length_basic Let_def
        strings_SplitN2_def split: prod.splits sum.splits)

lemma GetSessionInfo_no_cookie:
  assumes "assert_SessionInfo (c_Get c ''session'') = None"
    and "Request_Cookie (request c) ''gq_session'' = Inl e
         \<or> Request_Cookie (request c) ''gq_session'' = Inr []"
  shows "fst (GetSessionInfo svc c s) = (None, None)"
  using assms
  by (auto simp add: GetSessionInfo_def c_Request_Cookie_def Let_def)

lemma GetSessionInfo_expired:
  assumes "assert_SessionInfo (c_Get c ''session'') = None"
    and "Request_Cookie (request c) ''gq_session'' = Inr sid" and "sid \<noteq> []"
    and "fst (store_Get (store svc) sid (world s)) = Inl err"
    and "errors_Is err ErrInvalidSession"
  shows "fst (GetSessionInfo svc c s) = (None, None)"
  using assms
  by (simp add: GetSessionInfo_def c_Request_Cookie_def call_store_Get_def Let_def
        case_prod_beta)

lemma GetSessionInfo_found:
  assumes "assert_SessionInfo (c_Get c ''session'') = None"
    and "Request_Cookie (request c) ''gq_session'' = Inr sid" and "sid \<noteq> []"
    and "store_Get (store svc) sid (world s) = (Inr username, w)"
  shows "GetSessionInfo svc c s =
           ((Some \<lparr> sessID = sid, sessUsername = username \<rparr>, None),
            c_Set c ''session'' (VSessionInfo \<lparr> sessID = sid, sessUsername = username \<rparr>),
            s \<lparr> world := w, calls := calls s @ [RequestCookie ''gq_session'', StoreGet sid] \<rparr>)"
  using assms
  by (simp add: GetSessionInfo_def c_Request_Cookie_def call_store_Get_def Let_def)

lemma GetSessionInfo_memo:
  "assert_SessionInfo (c_Get c ''session'') = Some si \<Longrightarrow>
     GetSessionInfo svc c s = ((Some si, None), c, s)"
  by (simp add: GetSessionInfo_def)

lemma cache_Get_miss:
  assumes "cache s key = None"
  shows "fst (cache_Get svc key s) =
           (case fst (GetByUsername (accounts svc) key (world s)) of
              Inl err \<Rightarrow> None
            | Inr account \<Rightarrow> Some (AccountToUser account))"
  using assms
  by (simp add: cache_Get_def loader_def accounts_GetByUsername_def cache_Set_def Let_def
        case_prod_beta split: sum.splits)

lemma GetUser_cookie_no_session:
  assumes "assert_User (c_Get c ''user'') = None"
    and "Header_Get (request c) ''Authorization'' = []"
    and "fst (GetSessionInfo svc c s) = (None, None)"
  shows "GetUser svc c s = ((AnonymousUser, None), snd (GetSessionInfo svc c s))"
  using assms by (cases "GetSessionInfo svc c s") (simp add: GetUser_def)

lemma GetUser_cookie_error:
  assumes "assert_User (c_Get c ''user'') = None"
    and "Header_Get (request c) ''Authorization'' = []"
    and "fst (GetSessionInfo svc c s) = (session, Some err)"
  shows "GetUser svc c s =
           ((AnonymousUser, Some (Wrapf ''auth: get session user'' err)),
            snd (GetSessionInfo svc c s))"
  using assms
  by (cases "GetSessionInfo svc c s") (simp add: GetUser_def split: option.splits)

lemma GetUser_cookie_session:
  assumes "assert_User (c_Get c ''user'') = None"
    and "Header_Get (request c) ''Authorization'' = []"
    and "fst (GetSessionInfo svc c s) = (Some session, None)"
  shows "GetUser svc c s =
           (case fst (cache_Get svc (sessUsername session) (snd (snd (GetSessionInfo svc c s)))) of
              None \<Rightarrow>
                ((AnonymousUser, None), fst (snd (GetSessionInfo svc c s)),
                 snd (cache_Get svc (sessUsername session) (snd (snd (GetSessionInfo svc c s)))))
            | Some user \<Rightarrow>
                ((user, None), c_Set (fst (snd (GetSessionInfo svc c s))) ''user'' (VUser user),
                 snd (cache_Get svc (sessUsername session) (snd (snd (GetSessionInfo svc c s))))))"
  using assms
  by (cases "GetSessionInfo svc c s")
     (simp add: GetUser_def case_prod_beta split: option.splits)

lemma AnonymousUser_flags: "\<not> IsAuthenticated AnonymousUser" "IsGuest AnonymousUser"
  by (simp_all add: AnonymousUser_def zeroUser_def)

text \<open>
  C4, as the code has it.  The request has no memoized user, carries a non-empty
  \<open>Authorization\<close> header \<open>a\<close> and misses the credential cache.  When \<open>a\<close> is longer than six
  bytes, its first five bytes are \<open>basic\<close> in any case, and the rest after the sixth byte is
  not valid base64, \<open>GetUser\<close> returns the decoder's error.  When the scheme is not Basic
  (or \<open>a\<close> is too short), or when the decoded payload has no colon, \<open>GetUser\<close> reports no
  error: it verifies no credential (the lookup in the credential cache is its only call)
  and the identity it returns is not authenticated.  A decoded payload with a colon is
  split at its first colon into login and password, which \<open>Authenticate\<close> verifies: its
  error is returned, or the projection of the account.
\<close>

theorem GetUser_malformed_authorization:
  assumes "assert_User (c_Get c ''user'') = None"
    and "Header_Get (request c) ''Authorization'' = a" and "a \<noteq> []"
    and "basicAuthCache s a = None"
  shows "(length a > 6 \<and> strings_EqualFold (take 5 a) basic
            \<and> DecodeString svc (drop 6 a) = Inl err
          \<longrightarrow> fst (GetUser svc c s) = (AnonymousUser, Some err)
              \<and> calls (snd (snd (GetUser svc c s))) = calls s @ [BasicAuthCacheGet a])
       \<and> (\<not> (length a > 6 \<and> strings_EqualFold (take 5 a) basic)
            \<or> (length a > 6 \<and> strings_EqualFold (take 5 a) basic
                 \<and> DecodeString svc (drop 6 a) = Inr b \<and> CHR '':'' \<notin> set b)
          \<longrightarrow> snd (fst (GetUser svc c s)) = None
              \<and> \<not> IsAuthenticated (fst (fst (GetUser svc c s)))
              \<and> calls (snd (snd (GetUser svc c s))) = calls s @ [BasicAuthCacheGet a])
       \<and> (length a > 6 \<and> strings_EqualFold (take 5 a) basic
            \<and> DecodeString svc (drop 6 a) = Inr b \<and> CHR '':'' \<in> set b
          \<longrightarrow> fst (GetUser svc c s) =
                (case fst (Authenticate svc (takeWhile (\<lambda>ch. ch \<noteq> CHR '':'') b)
                             (tl (dropWhile (\<lambda>ch. ch \<noteq> CHR '':'') b))
                             (s \<lparr> calls := calls s @ [BasicAuthCacheGet a] \<rparr>)) of
                   Inl verr \<Rightarrow> (AnonymousUser, Some verr)
                 | Inr account \<Rightarrow> (AccountToUser account, None)))"
proof (intro conjI impI)
  assume h: "length a > 6 \<and> strings_EqualFold (take 5 a) basic
               \<and> DecodeString svc (drop 6 a) = Inl err"
  then have g: "GetUser svc c s =
      ((AnonymousUser, Some err), c, s \<lparr> calls := calls s @ [BasicAuthCacheGet a] \<rparr>)"
    using GetUser_basic_decode [OF assms] by blast
  show "fst (GetUser svc c s) = (AnonymousUser, Some err)" by (simp add: g)
  show "calls (snd (snd (GetUser svc c s))) = calls s @ [BasicAuthCacheGet a]" by (simp add: g)
next
  assume h: "\<not> (length a > 6 \<and> strings_EqualFold (take 5 a) basic)
            \<or> (length a > 6 \<and> strings_EqualFold (take 5 a) basic
                 \<and> DecodeString svc (drop 6 a) = Inr b \<and> CHR '':'' \<notin> set b)"
  then have g: "GetUser svc c s =
      ((zeroUser, None), c_Set c ''user'' (VUser zeroUser),
       s \<lparr> calls := calls s @ [BasicAuthCacheGet a] \<rparr>)"
    using GetUser_basic_scheme [OF assms] GetUser_basic_no_colon [OF assms] by blast
  show "snd (fst (GetUser svc c s)) = None" by (simp add: g)
  show "\<not> IsAuthenticated (fst (fst (GetUser svc c s)))" by (simp add: g zeroUser_def)
  show "calls (snd (snd (GetUser svc c s))) = calls s @ [BasicAuthCacheGet a]" by (simp add: g)
next
  assume h: "length a > 6 \<and> strings_EqualFold (take 5 a) basic
            \<and> DecodeString svc (drop 6 a) = Inr b \<and> CHR '':'' \<in> set b"
  then have v: "length a > 6" "strings_EqualFold (take 5 a) basic"
    "DecodeString svc (drop 6 a) = Inr b" "CHR '':'' \<in> set b" by simp_all
  show "fst (GetUser svc c s) =
          (case fst (Authenticate svc (takeWhile (\<lambda>ch. ch \<noteq> CHR '':'') b)
                       (tl (dropWhile (\<lambda>ch. ch \<noteq> CHR '':'') b))
                       (s \<lparr> calls := calls s @ [BasicAuthCacheGet a] \<rparr>)) of
             Inl verr \<Rightarrow> (AnonymousUser, Some verr)
           | Inr account \<Rightarrow> (AccountToUser account, None))"
    by (simp add: GetUser_basic_verify [OF assms v] split: prod.splits sum.splits)
qed

lemma EqualFold_Basic: "strings_EqualFold ''Basic'' basic" "\<not> strings_EqualFold ''Beare'' basic"
  by code_simp+

theorem GetUser_malformed_authorization_witness:
  "fst (GetUser testService (testContext ''Basic ????'' []) (testState [alice, carol]))
     = (AnonymousUser, Some (Errorf ''illegal base64 data''))
   \<and> snd (fst (GetUser testService (testContext ''Bearer abc'' []) (testState [alice, carol])))
     = None
   \<and> \<not> IsAuthenticated (fst (fst (GetUser testService (testContext ''Bearer abc'' [])
                                     (testState [alice, carol]))))
   \<and> snd (fst (GetUser testService (testContext ''Basic YWxpY2U='' []) (testState [alice, carol])))
     = None
   \<and> calls (snd (snd (GetUser testService (testContext ''Basic YWxpY2U='' [])
                         (testState [alice, carol]))))
     = [BasicAuthCacheGet ''Basic YWxpY2U='']
   \<and> fst (GetUser testService (testContext ''Basic YWxpY2U6d3Jvbmc='' [])
            (testState [alice, carol]))
     = (AnonymousUser, Some ErrInvalidPassword)
   \<and> fst (GetUser testService (testContext ''basic YWxpY2U6czNjcmV0'' [])
            (testState [alice, carol]))
     = (AccountToUser (toAccount alice), None)"
proof -
  let ?s = "testState [alice, carol]"
  have memo: "\<And>a. assert_User (c_Get (testContext a []) ''user'') = None"
    by (simp add: ctx_defs)
  have hdr: "\<And>a. a \<noteq> [] \<Longrightarrow> Header_Get (request (testContext a [])) ''Authorization'' = a"
    by (simp add: ctx_defs)
  have miss: "\<And>a. basicAuthCache ?s a = None" by (simp add: testState_def)
  have c0: "calls ?s = []" by (simp add: testState_def)
  have fold: "strings_EqualFold ''basic'' basic" by code_simp
  have d1: "length ''Basic ????'' > 6 \<and> strings_EqualFold (take 5 ''Basic ????'') basic
             \<and> DecodeString testService (drop 6 ''Basic ????'') = Inl (Errorf ''illegal base64 data'')"
    by (simp add: EqualFold_Basic testService_def testDecode_def)
  have d2: "\<not> (length ''Bearer abc'' > 6 \<and> strings_EqualFold (take 5 ''Bearer abc'') basic)"
    by (simp add: EqualFold_Basic)
  have d3: "length ''Basic YWxpY2U='' > 6 \<and> strings_EqualFold (take 5 ''Basic YWxpY2U='') basic
             \<and> DecodeString testService (drop 6 ''Basic YWxpY2U='') = Inr ''alice''
             \<and> CHR '':'' \<notin> set ''alice''"
    by (simp add: EqualFold_Basic testService_def testDecode_def)
  have d4: "length ''Basic YWxpY2U6d3Jvbmc='' > 6
             \<and> strings_EqualFold (take 5 ''Basic YWxpY2U6d3Jvbmc='') basic
             \<and> DecodeString testService (drop 6 ''Basic YWxpY2U6d3Jvbmc='') = Inr ''alice:wrong''
             \<and> CHR '':'' \<in> set ''alice:wrong''"
    by (simp add: EqualFold_Basic testService_def testDecode_def)
  have d5: "length ''basic YWxpY2U6czNjcmV0'' > 6
             \<and> strings_EqualFold (take 5 ''basic YWxpY2U6czNjcmV0'') basic
             \<and> DecodeString testService (drop 6 ''basic YWxpY2U6czNjcmV0'') = Inr ''alice:s3cret''
             \<and> CHR '':'' \<in> set ''alice:s3cret''"
    by (simp add: fold testService_def testDecode_def)
  have v4: "fst (Authenticate testService (takeWhile (\<lambda>ch. ch \<noteq> CHR '':'') ''alice:wrong'')
                   (tl (dropWhile (\<lambda>ch. ch \<noteq> CHR '':'') ''alice:wrong''))
                   (?s \<lparr> calls := calls ?s @ [BasicAuthCacheGet ''Basic YWxpY2U6d3Jvbmc=''] \<rparr>))
              = Inl ErrInvalidPassword"
    by (simp add: Authenticate_result test_defs)
  have v5: "fst (Authenticate testService (takeWhile (\<lambda>ch. ch \<noteq> CHR '':'') ''alice:s3cret'')
                   (tl (dropWhile (\<lambda>ch. ch \<noteq> CHR '':'') ''alice:s3cret''))
                   (?s \<lparr> calls := calls ?s @ [BasicAuthCacheGet ''basic YWxpY2U6czNjcmV0''] \<rparr>))
              = Inr (toAccount alice)"
    by (simp add: Authenticate_result test_defs)
  have ne: "''Basic ????'' \<noteq> []" "''Bearer abc'' \<noteq> []" "''Basic YWxpY2U='' \<noteq> []"
    "''Basic YWxpY2U6d3Jvbmc='' \<noteq> []" "''basic YWxpY2U6czNjcmV0'' \<noteq> []"
    by simp_all
  note t1 = GetUser_malformed_authorization
            [OF memo hdr [OF ne(1)] ne(1) miss, of testService "Errorf ''illegal base64 data''",
             THEN conjunct1, rule_format, OF d1]
  note t2 = GetUser_malformed_authorization
            [OF memo hdr [OF ne(2)] ne(2) miss, of testService _ "[]",
             THEN conjunct2, THEN conjunct1, rule_format, OF disjI1 [OF d2]]
  note t3 = GetUser_malformed_authorization
            [OF memo hdr [OF ne(3)] ne(3) miss, of testService _ "''alice''",
             THEN conjunct2, THEN conjunct1, rule_format, OF disjI2 [OF d3]]
  note t4 = GetUser_malformed_authorization
            [OF memo hdr [OF ne(4)] ne(4) miss, of testService _ "''alice:wrong''",
             THEN conjunct2, THEN conjunct2, rule_format, OF d4]
  note t5 = GetUser_malformed_authorization
            [OF memo hdr [OF ne(5)] ne(5) miss, of testService _ "''alice:s3cret''",
             THEN conjunct2, THEN conjunct2, rule_format, OF d5]
  show ?thesis
    using t1 t2 t3 t4 [unfolded v4] t5 [unfolded v5]
    by (simp add: c0)
qed

text \<open>
  C4 as stated fails: a header with another scheme, and a Basic header whose payload
  decodes to a text without a colon, are answered without an error.
\<close>

theorem GetUser_malformed_authorization_counterexample:
  "snd (fst (GetUser testService (testContext ''Bearer abc'' []) (testState [alice, carol]))) = None
   \<and> snd (fst (GetUser testService (testContext ''Basic YWxpY2U='' []) (testState [alice, carol]))) = None"
proof -
  have memo: "\<And>a. assert_User (c_Get (testContext a []) ''user'') = None"
    by (simp add: ctx_defs)
  have hdr: "\<And>a. a \<noteq> [] \<Longrightarrow> Header_Get (request (testContext a [])) ''Authorization'' = a"
    by (simp add: ctx_defs)
  have miss: "\<And>a. basicAuthCache (testState [alice, carol]) a = None" by (simp add: testState_def)
  have "GetUser testService (testContext ''Bearer abc'' []) (testState [alice, carol]) =
          ((zeroUser, None), c_Set (testContext ''Bearer abc'' []) ''user'' (VUser zeroUser),
           (testState [alice, carol]) \<lparr> calls := calls (testState [alice, carol]) @ [BasicAuthCacheGet ''Bearer abc''] \<rparr>)"
    by (rule GetUser_basic_scheme [OF memo hdr _ miss]) (simp_all add: EqualFold_Basic)
  moreover have "GetUser testService (testContext ''Basic YWxpY2U='' []) (testState [alice, carol]) =
          ((zeroUser, None), c_Set (testContext ''Basic YWxpY2U='' []) ''user'' (VUser zeroUser),
           (testState [alice, carol]) \<lparr> calls := calls (testState [alice, carol]) @ [BasicAuthCacheGet ''Basic YWxpY2U=''] \<rparr>)"
    by (rule GetUser_basic_no_colon [OF memo hdr _ miss, where b = "''alice''"])
       (simp_all add: EqualFold_Basic testService_def testDecode_def)
  ultimately show ?thesis by simp
qed

text \<open>
  C5, as the code has it.  The request has no \<open>Authorization\<close> header and no memoized
  user.  \<open>GetUser\<close> returns \<open>AnonymousUser\<close> with a nil error in each of these cases: the
  request carries no session cookie (or an empty one); the store reports its session
  identifier as invalid; its session resolves, from the store or from the session
  memoized in the context, to a username that misses the identity cache and that the
  repository fails to load.  \<open>AnonymousUser\<close> is the guest value: it is not authenticated
  and \<open>IsGuest\<close> is true.
\<close>

theorem GetUser_anonymous:
  assumes "assert_User (c_Get c ''user'') = None"
    and "Header_Get (request c) ''Authorization'' = []"
    and "(assert_SessionInfo (c_Get c ''session'') = None
           \<and> (Request_Cookie (request c) ''gq_session'' = Inl e
                \<or> Request_Cookie (request c) ''gq_session'' = Inr []))
         \<or> (assert_SessionInfo (c_Get c ''session'') = None
              \<and> Request_Cookie (request c) ''gq_session'' = Inr sid \<and> sid \<noteq> []
              \<and> fst (store_Get (store svc) sid (world s)) = Inl err
              \<and> errors_Is err ErrInvalidSession)
         \<or> (assert_SessionInfo (c_Get c ''session'') = None
              \<and> Request_Cookie (request c) ''gq_session'' = Inr sid \<and> sid \<noteq> []
              \<and> store_Get (store svc) sid (world s) = (Inr username, w)
              \<and> cache s username = None
              \<and> fst (GetByUsername (accounts svc) username w) = Inl err)
         \<or> (assert_SessionInfo (c_Get c ''session'') = Some si
              \<and> cache s (sessUsername si) = None
              \<and> fst (GetByUsername (accounts svc) (sessUsername si) (world s)) = Inl err)"
  shows "fst (GetUser svc c s) = (AnonymousUser, None)
         \<and> \<not> IsAuthenticated AnonymousUser \<and> IsGuest AnonymousUser"
proof -
  consider (none) "assert_SessionInfo (c_Get c ''session'') = None"
        "Request_Cookie (request c) ''gq_session'' = Inl e
         \<or> Request_Cookie (request c) ''gq_session'' = Inr []"
    | (expired) "assert_SessionInfo (c_Get c ''session'') = None"
        "Request_Cookie (request c) ''gq_session'' = Inr sid" "sid \<noteq> []"
        "fst (store_Get (store svc) sid (world s)) = Inl err" "errors_Is err ErrInvalidSession"
    | (dangling) "assert_SessionInfo (c_Get c ''session'') = None"
        "Request_Cookie (request c) ''gq_session'' = Inr sid" "sid \<noteq> []"
        "store_Get (store svc) sid (world s) = (Inr username, w)"
        "cache s username = None" "fst (GetByUsername (accounts svc) username w) = Inl err"
    | (memoized) "assert_SessionInfo (c_Get c ''session'') = Some si"
        "cache s (sessUsername si) = None"
        "fst (GetByUsername (accounts svc) (sessUsername si) (world s)) = Inl err"
    using assms(3) by auto
  then have "fst (GetUser svc c s) = (AnonymousUser, None)"
  proof cases
    case none
    show ?thesis
      by (simp add: GetUser_cookie_no_session
            [OF assms(1,2) GetSessionInfo_no_cookie [OF none]])
  next
    case expired
    show ?thesis
      by (simp add: GetUser_cookie_no_session
            [OF assms(1,2) GetSessionInfo_expired [OF expired]])
  next
    case dangling
    let ?s1 = "s \<lparr> world := w, calls := calls s @ [RequestCookie ''gq_session'', StoreGet sid] \<rparr>"
    have "fst (cache_Get svc username ?s1) = None"
      using dangling(5,6) by (simp add: cache_Get_miss)
    moreover have "fst (GetSessionInfo svc c s) =
        (Some \<lparr> sessID = sid, sessUsername = username \<rparr>, None)"
      by (simp add: GetSessionInfo_found [OF dangling(1,2,3,4)])
    ultimately show ?thesis
      by (simp add: GetUser_cookie_session [OF assms(1,2)]
            GetSessionInfo_found [OF dangling(1,2,3,4)])
  next
    case memoized
    have g: "GetSessionInfo svc c s = ((Some si, None), c, s)"
      by (rule GetSessionInfo_memo [OF memoized(1)])
    have "fst (cache_Get svc (sessUsername si) s) = None"
      using memoized(2,3) by (simp add: cache_Get_miss)
    then show ?thesis
      using g by (simp add: GetUser_cookie_session [OF assms(1,2), where session = si])
  qed
  then show ?thesis by (simp add: AnonymousUser_flags)
qed

theorem GetUser_anonymous_witness:
  "fst (GetUser testService (testContext [] []) (testState [alice, carol]))
     = (AnonymousUser, None)
   \<and> fst (GetUser testService (testContext [] [(''gq_session'', ''stale'')])
            (testState [alice, carol]))
     = (AnonymousUser, None)
   \<and> fst (GetUser testService (testContext [] [(''gq_session'', ''sid-ghost'')])
            (testState [alice, carol]))
     = (AnonymousUser, None)
   \<and> fst (GetUser testService
            ((testContext [] [(''gq_session'', ''sid-ghost'')])
               \<lparr> ctxStore := [''session'' \<mapsto>
                    VSessionInfo \<lparr> sessID = ''sid-ghost'', sessUsername = ''ghost'' \<rparr>] \<rparr>)
            (testState [alice, carol]))
     = (AnonymousUser, None)
   \<and> IsGuest AnonymousUser"
proof -
  let ?s = "testState [alice, carol]"
  let ?si = "\<lparr> sessID = ''sid-ghost'', sessUsername = ''ghost'' \<rparr>"
  let ?cm = "(testContext [] [(''gq_session'', ''sid-ghost'')])
               \<lparr> ctxStore := [''session'' \<mapsto> VSessionInfo ?si] \<rparr>"
  have memo: "\<And>cs. assert_User (c_Get (testContext [] cs) ''user'') = None"
    and hdr: "\<And>cs. Header_Get (request (testContext [] cs)) ''Authorization'' = []"
    and memo': "assert_User (c_Get ?cm ''user'') = None"
    and hdr': "Header_Get (request ?cm) ''Authorization'' = []"
    by (simp_all add: ctx_defs)
  have none: "assert_SessionInfo (c_Get (testContext [] []) ''session'') = None
      \<and> (Request_Cookie (request (testContext [] [])) ''gq_session'' = Inl ErrNoCookie
           \<or> Request_Cookie (request (testContext [] [])) ''gq_session'' = Inr [])"
    by (simp add: ctx_defs)
  have stale: "assert_SessionInfo (c_Get (testContext [] [(''gq_session'', ''stale'')]) ''session'') = None
               \<and> Request_Cookie (request (testContext [] [(''gq_session'', ''stale'')])) ''gq_session''
                 = Inr ''stale'' \<and> ''stale'' \<noteq> []
               \<and> fst (store_Get (store testService) ''stale'' (world ?s)) = Inl ErrInvalidSession
               \<and> errors_Is ErrInvalidSession ErrInvalidSession"
    by (simp add: ctx_defs test_defs RedisSessionStore_Get_def)
  have ghost: "assert_SessionInfo (c_Get (testContext [] [(''gq_session'', ''sid-ghost'')]) ''session'') = None
               \<and> Request_Cookie (request (testContext [] [(''gq_session'', ''sid-ghost'')])) ''gq_session''
                 = Inr ''sid-ghost'' \<and> ''sid-ghost'' \<noteq> []
               \<and> store_Get (store testService) ''sid-ghost'' (world ?s) = (Inr ''ghost'', world ?s)
               \<and> cache ?s ''ghost'' = None
               \<and> fst (GetByUsername (accounts testService) ''ghost'' (world ?s)) = Inl ErrAccountNotFound"
    by (simp add: ctx_defs test_defs RedisSessionStore_Get_def)
  have memoized: "assert_SessionInfo (c_Get ?cm ''session'') = Some ?si
               \<and> cache ?s (sessUsername ?si) = None
               \<and> fst (GetByUsername (accounts testService) (sessUsername ?si) (world ?s))
                    = Inl ErrAccountNotFound"
    by (simp add: ctx_defs test_defs)
  note t1 = GetUser_anonymous [OF memo hdr disjI1, OF none]
  note t2 = GetUser_anonymous [OF memo hdr disjI2, OF disjI1, OF stale]
  note t3 = GetUser_anonymous [OF memo hdr disjI2, OF disjI2, OF disjI1, OF ghost]
  note t4 = GetUser_anonymous [OF memo' hdr' disjI2, OF disjI2, OF disjI2, OF memoized]
  show ?thesis
    using t1 t2 t3 t4 by simp
qed

text \<open>
  C5 as stated fails: the identity returned for a request without header and cookie has
  \<open>IsGuest\<close> set.
\<close>

theorem GetUser_anonymous_counterexample:
  "IsGuest (fst (fst (GetUser testService (testContext [] []) (testState [alice, carol]))))"
proof -
  have "fst (GetSessionInfo testService (testContext [] []) (testState [alice, carol])) = (None, None)"
    by (rule GetSessionInfo_no_cookie [where e = ErrNoCookie]) (simp_all add: ctx_defs)
  then have "fst (GetUser testService (testContext [] []) (testState [alice, carol]))
               = (AnonymousUser, None)"
    by (simp add: GetUser_cookie_no_session ctx_defs)
  then show ?thesis by (simp add: AnonymousUser_flags)
qed


















section \<open>Properties of account projection\<close>

lemma consistent_simps:
  "consistent (AccountToUser account)" "consistent AnonymousUser" "consistent zeroUser"
  by (simp_all add: consistent_def AccountToUser_def AnonymousUser_def zeroUser_def)

lemma users_consistent_iff:
  "users_consistent c s \<longleftrightarrow>
     (\<forall>k u. cache s k = Some u \<longrightarrow> consistent u)
     \<and> (\<forall>k u. basicAuthCache s k = Some u \<longrightarrow> consistent u)
     \<and> (\<forall>u. assert_User (c_Get c ''user'') = Some u \<longrightarrow> consistent u)"
  by (auto simp: users_consistent_def ran_def split: option.splits)

lemma GetSessionInfo_user_key:
  "c_Get (fst (snd (GetSessionInfo svc c s))) ''user'' = c_Get c ''user''"
  by (simp add: GetSessionInfo_def LogoutUser_effect c_Request_Cookie_def call_store_Get_def
        c_Set_def c_Get_def Let_def case_prod_beta split: sum.splits option.splits)

lemma cache_Get_consistent:
  assumes "\<forall>k u. cache s k = Some u \<longrightarrow> consistent u"
  shows "\<forall>u. fst (cache_Get svc key s) = Some u \<longrightarrow> consistent u"
    and "\<forall>k u. cache (snd (cache_Get svc key s)) k = Some u \<longrightarrow> consistent u"
  using assms
  by (auto simp: cache_Get_def loader_def accounts_GetByUsername_def cache_Set_def Let_def
        case_prod_beta consistent_simps split: sum.splits option.splits if_splits)

lemma GetUser_basic_consistent:
  assumes "users_consistent c s" and "Header_Get (request c) ''Authorization'' \<noteq> []"
  shows "consistent (fst (fst (GetUser svc c s)))"
    and "users_consistent (fst (snd (GetUser svc c s))) (snd (snd (GetUser svc c s)))"
  using assms
  by (auto simp: users_consistent_iff GetUser_def Let_def case_prod_beta basicAuthCache_Get_def
        basicAuthCache_Set_def Authenticate_caches c_Set_def c_Get_def assert_User_def
        consistent_simps
        split: option.splits sum.splits if_splits CtxValue.splits)


lemma GetUser_cookie_consistent:
  assumes inv: "users_consistent c s" and hdr: "Header_Get (request c) ''Authorization'' = []"
  shows "consistent (fst (fst (GetUser svc c s)))
         \<and> users_consistent (fst (snd (GetUser svc c s))) (snd (snd (GetUser svc c s)))"
proof (cases "assert_User (c_Get c ''user'')")
  case (Some u)
  then show ?thesis using inv by (simp add: GetUser_memo users_consistent_iff)
next
  case memo: None
  let ?G = "GetSessionInfo svc c s"
  have G: "users_consistent (fst (snd ?G)) (snd (snd ?G))"
    using inv by (simp add: users_consistent_iff GetSessionInfo_caches GetSessionInfo_user_key)
  obtain session e where r: "fst ?G = (session, e)" by (cases "fst ?G")
  show ?thesis
  proof (cases e)
    case (Some err)
    then show ?thesis
      using G r by (simp add: GetUser_cookie_error [OF memo hdr] consistent_simps)
  next
    case e: None
    show ?thesis
    proof (cases session)
      case None
      then show ?thesis
        using G r e by (simp add: GetUser_cookie_no_session [OF memo hdr] consistent_simps)
    next
      case (Some si)
      let ?C = "cache_Get svc (sessUsername si) (snd (snd ?G))"
      have c1: "\<forall>u. fst ?C = Some u \<longrightarrow> consistent u"
        and c2: "\<forall>k u. cache (snd ?C) k = Some u \<longrightarrow> consistent u"
      proof -
        have pre: "\<forall>k u. cache (snd (snd ?G)) k = Some u \<longrightarrow> consistent u"
          using G by (simp add: users_consistent_iff)
        show "\<forall>u. fst ?C = Some u \<longrightarrow> consistent u"
          by (rule cache_Get_consistent(1) [OF pre])
        show "\<forall>k u. cache (snd ?C) k = Some u \<longrightarrow> consistent u"
          by (rule cache_Get_consistent(2) [OF pre])
      qed
      have c3: "basicAuthCache (snd ?C) = basicAuthCache s"
        by (simp add: cache_Get_basicAuthCache GetSessionInfo_caches)
      have c4: "assert_User (c_Get (fst (snd ?G)) ''user'') = None"
        using memo by (simp add: GetSessionInfo_user_key)
      have inv': "\<forall>k u. basicAuthCache s k = Some u \<longrightarrow> consistent u"
        using inv by (simp add: users_consistent_iff)
      have g: "fst ?G = (Some si, None)" using r e Some by simp
      show ?thesis
      proof (cases "fst ?C")
        case None
        then have "GetUser svc c s = ((AnonymousUser, None), fst (snd ?G), snd ?C)"
          by (simp add: GetUser_cookie_session [OF memo hdr g])
        then show ?thesis
          using c2 c3 c4 inv' by (simp add: users_consistent_iff consistent_simps)
      next
        case (Some user)
        then have "GetUser svc c s =
            ((user, None), c_Set (fst (snd ?G)) ''user'' (VUser user), snd ?C)"
          by (simp add: GetUser_cookie_session [OF memo hdr g])
        moreover have "consistent user" using c1 Some by simp
        ultimately show ?thesis
          using c2 c3 inv'
          by (simp add: users_consistent_iff c_Set_def c_Get_def assert_User_def)
      qed
    qed
  qed
qed


lemma GetUser_consistent:
  assumes "users_consistent c s"
  shows "consistent (fst (fst (GetUser svc c s)))
         \<and> users_consistent (fst (snd (GetUser svc c s))) (snd (snd (GetUser svc c s)))"
  using GetUser_cookie_consistent [OF assms] GetUser_basic_consistent [OF assms]
  by (cases "Header_Get (request c) ''Authorization'' = []") blast+

lemma loader_result:
  "fst (loader svc username s) =
     (case fst (GetByUsername (accounts svc) username (world s)) of
        Inl err \<Rightarrow> None
      | Inr account \<Rightarrow> Some (AccountToUser account))"
  "cache (snd (loader svc username s)) username =
     (case fst (GetByUsername (accounts svc) username (world s)) of
        Inl err \<Rightarrow> cache s username
      | Inr account \<Rightarrow> Some (AccountToUser account))"
  by (simp_all add: loader_def accounts_GetByUsername_def cache_Set_def Let_def
        case_prod_beta split: sum.splits)

lemma GetUser_basic_success:
  assumes "assert_User (c_Get c ''user'') = None"
    and "Header_Get (request c) ''Authorization'' = a" and "a \<noteq> []"
    and "basicAuthCache s a = None"
    and "length a > 6" and "strings_EqualFold (take 5 a) basic"
    and "DecodeString svc (drop 6 a) = Inr b" and "CHR '':'' \<in> set b"
    and "fst (Authenticate svc (takeWhile (\<lambda>ch. ch \<noteq> CHR '':'') b)
                (tl (dropWhile (\<lambda>ch. ch \<noteq> CHR '':'') b))
                (s \<lparr> calls := calls s @ [BasicAuthCacheGet a] \<rparr>)) = Inr account"
  shows "fst (GetUser svc c s) = (AccountToUser account, None)"
    and "basicAuthCache (snd (snd (GetUser svc c s))) a = Some (AccountToUser account)"
  using assms(9)
  by (auto simp: GetUser_basic_verify [OF assms(1-8)] split: prod.splits)


text \<open>
  C10.  The projection of an account is authenticated, not guest, and carries the
  account's username, email, first and last name, superuser flag and profile.  On a miss
  of the identity cache the loader yields the projection of the account the repository
  returns (and nothing when the repository fails).  On the Basic-Auth path, after a
  successful verification, \<open>GetUser\<close> returns the projection of the verified account and
  stores it in the credential cache.  And no identity is both authenticated and guest:
  when that holds of the entries of both caches and of the user memoized in the context,
  it holds of the identity \<open>GetUser\<close> returns and of the caches and the context it leaves.
\<close>

theorem account_projection_identity:
  fixes svc :: "'w AuthService" and c c' :: Context and s s' :: "'w State"
  defines "s' \<equiv> snd (snd (GetUser svc c s))" and "c' \<equiv> fst (snd (GetUser svc c s))"
  shows "(IsAuthenticated (AccountToUser account) \<and> \<not> IsGuest (AccountToUser account)
          \<and> Username (AccountToUser account) = accUsername account
          \<and> Email (AccountToUser account) = accEmail account
          \<and> FirstName (AccountToUser account) = accFirstName account
          \<and> LastName (AccountToUser account) = accLastName account
          \<and> IsSuperuser (AccountToUser account) = accSuperuser account
          \<and> Profile (AccountToUser account) = accProfile account)
    \<and> (cache s username = None \<longrightarrow>
          fst (cache_Get svc username s) =
            (case fst (GetByUsername (accounts svc) username (world s)) of
               Inl err \<Rightarrow> None
             | Inr found \<Rightarrow> Some (AccountToUser found)))
    \<and> (assert_User (c_Get c ''user'') = None
          \<and> Header_Get (request c) ''Authorization'' = a \<and> a \<noteq> []
          \<and> basicAuthCache s a = None
          \<and> length a > 6 \<and> strings_EqualFold (take 5 a) basic
          \<and> DecodeString svc (drop 6 a) = Inr b \<and> CHR '':'' \<in> set b
          \<and> fst (Authenticate svc (takeWhile (\<lambda>ch. ch \<noteq> CHR '':'') b)
                    (tl (dropWhile (\<lambda>ch. ch \<noteq> CHR '':'') b))
                    (s \<lparr> calls := calls s @ [BasicAuthCacheGet a] \<rparr>)) = Inr verified
         \<longrightarrow> fst (GetUser svc c s) = (AccountToUser verified, None)
             \<and> basicAuthCache s' a = Some (AccountToUser verified))
    \<and> (users_consistent c s \<longrightarrow>
          consistent (fst (fst (GetUser svc c s))) \<and> users_consistent c' s')"
proof (intro conjI impI)
  assume "cache s username = None"
  then show "fst (cache_Get svc username s) =
            (case fst (GetByUsername (accounts svc) username (world s)) of
               Inl err \<Rightarrow> None
             | Inr found \<Rightarrow> Some (AccountToUser found))"
    by (simp add: cache_Get_miss)
next
  assume h: "assert_User (c_Get c ''user'') = None
          \<and> Header_Get (request c) ''Authorization'' = a \<and> a \<noteq> []
          \<and> basicAuthCache s a = None
          \<and> length a > 6 \<and> strings_EqualFold (take 5 a) basic
          \<and> DecodeString svc (drop 6 a) = Inr b \<and> CHR '':'' \<in> set b
          \<and> fst (Authenticate svc (takeWhile (\<lambda>ch. ch \<noteq> CHR '':'') b)
                    (tl (dropWhile (\<lambda>ch. ch \<noteq> CHR '':'') b))
                    (s \<lparr> calls := calls s @ [BasicAuthCacheGet a] \<rparr>)) = Inr verified"
  then show "fst (GetUser svc c s) = (AccountToUser verified, None)"
    by (intro GetUser_basic_success(1) [where a = a and b = b]) simp_all
  from h show "basicAuthCache s' a = Some (AccountToUser verified)"
    unfolding s'_def by (intro GetUser_basic_success(2) [where b = b]) simp_all
next
  assume "users_consistent c s"
  then show "consistent (fst (fst (GetUser svc c s)))" "users_consistent c' s'"
    unfolding s'_def c'_def using GetUser_consistent by blast+
qed (simp_all add: AccountToUser_def)


theorem account_projection_identity_witness:
  "fst (cache_Get testService ''alice'' (testState [alice, carol]))
     = Some (AccountToUser (toAccount alice))
   \<and> fst (GetUser testService (testContext ''Basic YWxpY2U6czNjcmV0'' [])
            (testState [alice, carol]))
     = (AccountToUser (toAccount alice), None)
   \<and> basicAuthCache (snd (snd (GetUser testService (testContext ''Basic YWxpY2U6czNjcmV0'' [])
            (testState [alice, carol])))) ''Basic YWxpY2U6czNjcmV0''
     = Some (AccountToUser (toAccount alice))
   \<and> consistent (fst (fst (GetUser testService (testContext ''Basic YWxpY2U6czNjcmV0'' [])
            (testState [alice, carol]))))
   \<and> IsAuthenticated (AccountToUser (toAccount alice))
   \<and> \<not> IsGuest (AccountToUser (toAccount alice))
   \<and> Username (AccountToUser (toAccount alice)) = ''alice''
   \<and> Email (AccountToUser (toAccount alice)) = ''alice@x.com''"
proof -
  let ?s = "testState [alice, carol]"
  let ?a = "''Basic YWxpY2U6czNjcmV0''"
  let ?c = "testContext ?a []"
  have miss: "cache ?s ''alice'' = None" by (simp add: testState_def)
  have found: "fst (GetByUsername (accounts testService) ''alice'' (world ?s)) = Inr (toAccount alice)"
    by (simp add: test_defs)
  have basic_path: "assert_User (c_Get ?c ''user'') = None
          \<and> Header_Get (request ?c) ''Authorization'' = ?a \<and> ?a \<noteq> []
          \<and> basicAuthCache ?s ?a = None
          \<and> length ?a > 6 \<and> strings_EqualFold (take 5 ?a) basic
          \<and> DecodeString testService (drop 6 ?a) = Inr ''alice:s3cret''
          \<and> CHR '':'' \<in> set ''alice:s3cret''
          \<and> fst (Authenticate testService (takeWhile (\<lambda>ch. ch \<noteq> CHR '':'') ''alice:s3cret'')
                    (tl (dropWhile (\<lambda>ch. ch \<noteq> CHR '':'') ''alice:s3cret''))
                    (?s \<lparr> calls := calls ?s @ [BasicAuthCacheGet ?a] \<rparr>)) = Inr (toAccount alice)"
    by (simp add: ctx_defs EqualFold_Basic testDecode_def Authenticate_result test_defs)
  have inv: "users_consistent ?c ?s"
    by (simp add: users_consistent_def testState_def ctx_defs)
  have fields: "accUsername (toAccount alice) = ''alice''" "accEmail (toAccount alice) = ''alice@x.com''"
    by (simp_all add: toAccount_def alice_def)
  note T = account_projection_identity
      [where svc = testService and c = ?c and s = ?s and account = "toAccount alice"
         and username = "''alice''" and a = ?a and b = "''alice:s3cret''"
         and verified = "toAccount alice"]
  note projected = T [THEN conjunct1]
  note loaded = T [THEN conjunct2, THEN conjunct1, rule_format, OF miss]
  note verified = T [THEN conjunct2, THEN conjunct2, THEN conjunct1, rule_format, OF basic_path]
  note kept = T [THEN conjunct2, THEN conjunct2, THEN conjunct2, rule_format, OF inv]
  show ?thesis
  proof (intro conjI)
    show "consistent (fst (fst (GetUser testService ?c ?s)))"
      by (rule kept [THEN conjunct1])
    show "fst (cache_Get testService ''alice'' ?s) = Some (AccountToUser (toAccount alice))"
      using loaded found by simp
  qed (simp_all add: projected verified fields)
qed

section \<open>Properties of request memoization\<close>

text \<open>
  A resolved session is memoized: once \<open>GetSessionInfo\<close> has returned a session, a
  further call on the context it left returns that session and changes nothing.  A user
  that \<open>GetUser\<close> stored in the context is returned likewise (\<open>GetUser_memo\<close>).
\<close>

lemma GetSessionInfo_saves_session:
  assumes "fst (GetSessionInfo svc c s) = (Some si, None)"
  shows "assert_SessionInfo (c_Get (fst (snd (GetSessionInfo svc c s))) ''session'') = Some si"
  using assms
  by (auto simp: GetSessionInfo_def LogoutUser_effect c_Request_Cookie_def call_store_Get_def
        c_Set_def c_Get_def assert_SessionInfo_def Let_def case_prod_beta
        split: sum.splits option.splits if_splits)

lemma GetSessionInfo_memoized:
  assumes "fst (GetSessionInfo svc c s) = (Some si, None)"
  shows "GetSessionInfo svc (fst (snd (GetSessionInfo svc c s))) s' =
           ((Some si, None), fst (snd (GetSessionInfo svc c s)), s')"
  by (rule GetSessionInfo_memo [OF GetSessionInfo_saves_session [OF assms]])

text \<open>
  C6, on a request whose session cookie names an identifier that the store does not
  know.  The first call of \<open>GetSessionInfo\<close> reports ``no session'' and sets the key
  \<open>session\<close> of the context to nil.  The type assertion of the second call fails on nil,
  so the second call resolves again: it reads the cookie, queries the store, deletes the
  identifier and writes a second clearing cookie.  \<open>GetUser\<close> returns \<open>AnonymousUser\<close>
  without storing it under \<open>user\<close>, and its second call repeats the same calls.  On a
  request whose session names a username without an account, the second call of
  \<open>GetUser\<close> finds the session memoized but looks the username up in the identity cache
  and in the repository again.
\<close>

theorem GetSessionInfo_no_session_not_memoized:
  "(let c0 = testContext [] [(''gq_session'', ''stale'')];
        s0 = testState [alice, carol];
        r1 = GetSessionInfo testService c0 s0;
        r2 = GetSessionInfo testService (fst (snd r1)) (snd (snd r1))
    in fst r1 = (None, None)
       \<and> ctxStore (fst (snd r1)) ''session'' = Some VNil
       \<and> fst r2 = (None, None)
       \<and> new_calls (snd (snd r1)) (snd (snd r2)) =
            [RequestCookie ''gq_session'', StoreGet ''stale'',
             RequestCookie ''gq_session'', StoreDel ''stale'']
       \<and> length (setCookies (fst (snd r2))) = 2)
   \<and> (let c0 = testContext [] [(''gq_session'', ''stale'')];
        s0 = testState [alice, carol];
        r1 = GetUser testService c0 s0;
        r2 = GetUser testService (fst (snd r1)) (snd (snd r1))
    in fst r1 = (AnonymousUser, None)
       \<and> ctxStore (fst (snd r1)) ''user'' = None
       \<and> new_calls (snd (snd r1)) (snd (snd r2)) =
            [RequestCookie ''gq_session'', StoreGet ''stale'',
             RequestCookie ''gq_session'', StoreDel ''stale''])
   \<and> (let c0 = testContext [] [(''gq_session'', ''sid-ghost'')];
        s0 = testState [alice, carol];
        r1 = GetUser testService c0 s0;
        r2 = GetUser testService (fst (snd r1)) (snd (snd r1))
    in fst r1 = (AnonymousUser, None)
       \<and> ctxStore (fst (snd r1)) ''user'' = None
       \<and> new_calls (snd (snd r1)) (snd (snd r2)) =
            [CacheGet ''ghost'', AccountsGetByUsername ''ghost''])"
  by code_simp

end
